theory Spec2Isabelle
  imports Main
begin

section \<open>Strings and byte sequences\<close>

text \<open>
  A Go \<open>string\<close> and a Go \<open>[]byte\<close> are both sequences of bytes; an Isabelle \<open>char\<close> is one
  byte, so both are modelled as \<open>char list\<close>. \<open>len\<close> is \<open>length\<close>, \<open>s[i:]\<close> is \<open>drop i s\<close>
  and \<open>s[:i]\<close> (with \<open>i \<le> len(s)\<close>) is \<open>take i s\<close>.
\<close>

type_synonym bytes = "char list"

definition HasPrefix :: "string \<Rightarrow> string \<Rightarrow> bool" where
  \<comment> \<open>\<open>strings.HasPrefix(s, prefix)\<close>\<close>
  "HasPrefix s pre = (take (length pre) s = pre)"

definition TrimPrefix :: "string \<Rightarrow> string \<Rightarrow> string" where
  \<comment> \<open>\<open>strings.TrimPrefix(s, prefix)\<close>\<close>
  "TrimPrefix s pre = (if HasPrefix s pre then drop (length pre) s else s)"

fun Contains :: "string \<Rightarrow> string \<Rightarrow> bool" where
  \<comment> \<open>\<open>strings.Contains(s, substr)\<close>\<close>
  "Contains [] sub = (sub = [])"
| "Contains (c # cs) sub = (HasPrefix (c # cs) sub \<or> Contains cs sub)"

fun Split :: "string \<Rightarrow> char \<Rightarrow> string list" where
  \<comment> \<open>\<open>strings.Split(s, sep)\<close> for a separator of one byte: one more piece than there
      are separators, so \<open>Split("", "/")\<close> is the list holding the empty string.\<close>
  "Split [] sep = [[]]"
| "Split (c # cs) sep =
     (if c = sep then [] # Split cs sep
      else (case Split cs sep of
              [] \<Rightarrow> [[c]]
            | p # ps \<Rightarrow> (c # p) # ps))"

section \<open>Requests\<close>

text \<open>
  The parts of \<open>*http.Request\<close> that the middleware reads. \<open>Header\<close> and \<open>URL_Query\<close> are
  Go's \<open>map[string][]string\<close>; a header is identified by the name the code passes to
  \<open>Get\<close> and \<open>Set\<close> (both canonicalise it in the same way). \<open>ctx_userID\<close> is the result of
  \<open>req.Context().Value(userIDContextKey).(string)\<close>: \<open>None\<close> when the context holds no
  string under that key.
\<close>

record request =
  Method :: string
  URL_Host :: string
  URL_Path :: string
  URL_Query :: "string \<rightharpoonup> string list"
  Header :: "string \<rightharpoonup> string list"
  RemoteAddr :: string
  ctx_userID :: "string option"

definition Values_Get :: "(string \<rightharpoonup> string list) \<Rightarrow> string \<Rightarrow> string" where
  \<comment> \<open>\<open>Header.Get\<close> and \<open>url.Values.Get\<close>: the first value of the key, or the empty string.\<close>
  "Values_Get m k = (case m k of None \<Rightarrow> [] | Some [] \<Rightarrow> [] | Some (v # _) \<Rightarrow> v)"

definition Values_Set :: "(string \<rightharpoonup> string list) \<Rightarrow> string \<Rightarrow> string \<Rightarrow> (string \<rightharpoonup> string list)" where
  \<comment> \<open>\<open>Header.Set\<close>: the key now holds the single value.\<close>
  "Values_Set m k v = m(k \<mapsto> [v])"

section \<open>Response metadata and providers\<close>

text \<open>
  \<open>providers.LLMResponseMetadata\<close>, with the fields the middleware and the tests use. The
  token counts are Go \<open>int\<close>s.
\<close>

record LLMResponseMetadata =
  Model :: string
  InputTokens :: int
  OutputTokens :: int
  TotalTokens :: int
  ThoughtTokens :: int
  Provider :: string
  RequestID :: string
  IsStreaming :: bool
  FinishReason :: string

datatype error =
    Err string
  | ErrValidationFailed error
  | ErrWrongProvider string string

text \<open>
  The methods of the \<open>providers.Provider\<close> interface that the middleware calls.
  \<open>ParseResponseMetadata\<close> returns Go's pair \<open>(*LLMResponseMetadata, error)\<close>, each
  component \<open>None\<close> for \<open>nil\<close>.
\<close>

record provider =
  GetName :: string
  UserIDFromRequest :: "request \<Rightarrow> string"
  ParseResponseMetadata :: "bytes \<Rightarrow> bool \<Rightarrow> LLMResponseMetadata option \<times> error option"

section \<open>Identity resolution\<close>

definition ExtractIPAddressFromRequest :: "request \<Rightarrow> string" where
  "ExtractIPAddressFromRequest req =
     (let forwarded = Values_Get (Header req) ''X-Forwarded-For'' in
      if forwarded \<noteq> [] then forwarded
      else let realIP = Values_Get (Header req) ''X-Real-IP'' in
        if realIP \<noteq> [] then realIP
        else RemoteAddr req)"

definition path_userID :: "string \<Rightarrow> string option" where
  \<comment> \<open>Priority 1 of \<open>ExtractUserIDFromRequest\<close>: \<open>parts[2]\<close> of a path under \<open>/meta/\<close>,
      when there are at least three parts and it is not empty.\<close>
  "path_userID path =
     (if HasPrefix path ''/meta/'' then
        (let parts = Split path CHR ''/'' in
         if length parts \<ge> 3 then
           (let userID = parts ! 2 in if userID \<noteq> [] then Some userID else None)
         else None)
      else None)"

definition bearer_tokenID :: "string \<Rightarrow> string option" where
  \<comment> \<open>Priority 5 of \<open>ExtractUserIDFromRequest\<close>, for a non-empty \<open>Authorization\<close> value.\<close>
  "bearer_tokenID auth =
     (if HasPrefix auth ''Bearer '' then
        (let token = drop 7 auth in
         if length token > 8 then Some (''token:'' @ take 8 token)
         else Some (''token:'' @ token))
      else None)"

definition ExtractUserIDFromRequest :: "request \<Rightarrow> provider option \<Rightarrow> string" where
  "ExtractUserIDFromRequest req prov =
     (case (case ctx_userID req of Some userID \<Rightarrow> if userID \<noteq> [] then Some userID else None
                                 | None \<Rightarrow> None) of
        Some userID \<Rightarrow> userID
      | None \<Rightarrow>
     (case path_userID (URL_Path req) of
        Some userID \<Rightarrow> userID
      | None \<Rightarrow>
     (let userID = Values_Get (Header req) ''X-User-ID'' in
      if userID \<noteq> [] then userID else
     (case (case prov of
              Some p \<Rightarrow> (let userID = UserIDFromRequest p req in
                         if userID \<noteq> [] then Some userID else None)
            | None \<Rightarrow> None) of
        Some userID \<Rightarrow> userID
      | None \<Rightarrow>
     (let userID = Values_Get (URL_Query req) ''llm_user_id'' in
      if userID \<noteq> [] then userID else
     (case (let auth = Values_Get (Header req) ''Authorization'' in
            if auth \<noteq> [] then bearer_tokenID auth else None) of
        Some tokenID \<Rightarrow> tokenID
      | None \<Rightarrow>
     (let ipAddr = ExtractIPAddressFromRequest req in ''ip:'' @ ipAddr)))))))"

section \<open>Provider classification\<close>

text \<open>
  Modelled from the spec: \<open>providers.ProviderManager\<close> (its file,
  \<open>internal/providers/provider.go\<close>, is not among the sources). The registry "maps
  provider name \<open>\<rightarrow>\<close> adapter", so \<open>GetProvider\<close> is a lookup that yields \<open>nil\<close> for a name
  that was not registered; \<open>IsStreamingRequest\<close> is taken as a parameter.
\<close>

record ProviderManager =
  providers :: "string \<rightharpoonup> provider"
  IsStreamingRequest :: "request \<Rightarrow> bool"

definition GetProvider :: "ProviderManager \<Rightarrow> string \<Rightarrow> provider option" where
  "GetProvider pm name = providers pm name"

definition meta_switch :: "ProviderManager \<Rightarrow> string \<Rightarrow> provider option option" where
  \<comment> \<open>The \<open>/meta/\<close> block of \<open>GetProviderFromRequest\<close>: \<open>Some result\<close> when a case of the
      switch returns, \<open>None\<close> when control falls through to the direct paths.\<close>
  "meta_switch pm path =
     (if HasPrefix path ''/meta/'' then
        (let parts = Split path CHR ''/'' in
         if length parts \<ge> 4 then
           (let providerName = parts ! 3 in
            if providerName = ''openai'' then Some (GetProvider pm ''openai'')
            else if providerName = ''anthropic'' then Some (GetProvider pm ''anthropic'')
            else if providerName = ''gemini'' then Some (GetProvider pm ''gemini'')
            else if providerName = ''groq'' then Some (GetProvider pm ''groq'')
            else None)
         else None)
      else None)"

definition GetProviderFromRequest :: "ProviderManager \<Rightarrow> request \<Rightarrow> provider option" where
  "GetProviderFromRequest pm req =
     (let path = URL_Path req in
      case meta_switch pm path of
        Some result \<Rightarrow> result
      | None \<Rightarrow>
          if HasPrefix path ''/openai/'' then GetProvider pm ''openai''
          else if HasPrefix path ''/anthropic/'' then GetProvider pm ''anthropic''
          else if HasPrefix path ''/gemini/'' then GetProvider pm ''gemini''
          else if HasPrefix path ''/groq/'' then GetProvider pm ''groq''
          else None)"

subsection \<open>Classification as the specification words it\<close>

definition known_providers :: "string list" where
  "known_providers = [''openai'', ''anthropic'', ''gemini'', ''groq'']"

definition segment :: "string \<Rightarrow> string" where
  \<comment> \<open>The bytes up to the next slash.\<close>
  "segment s = takeWhile (\<lambda>c. c \<noteq> CHR ''/'') s"

definition after_segment :: "string \<Rightarrow> string option" where
  \<comment> \<open>What follows the slash that ends the first segment; \<open>None\<close> when no slash ends it.\<close>
  "after_segment s = (case dropWhile (\<lambda>c. c \<noteq> CHR ''/'') s of [] \<Rightarrow> None | _ # t \<Rightarrow> Some t)"

definition spec_meta_provider :: "string \<Rightarrow> string option" where
  \<comment> \<open>The \<open><p>\<close> of a path that begins with \<open>/meta/<u>/<p>/\<close>, for \<open><p>\<close> one of the provider
      names: both segments are closed by a slash.\<close>
  "spec_meta_provider path =
     (if HasPrefix path ''/meta/'' then
        (case after_segment (drop 6 path) of
           None \<Rightarrow> None
         | Some r \<Rightarrow>
             (case after_segment r of
                None \<Rightarrow> None
              | Some _ \<Rightarrow> if segment r \<in> set known_providers then Some (segment r) else None))
      else None)"

definition meta_provider_segment :: "string \<Rightarrow> string option" where
  \<comment> \<open>The \<open><p>\<close> of a path that begins with \<open>/meta/<u>/<p>\<close>, for \<open><p>\<close> one of the provider
      names, where the segment \<open><p>\<close> is closed by a slash or by the end of the path.\<close>
  "meta_provider_segment path =
     (if HasPrefix path ''/meta/'' then
        (case after_segment (drop 6 path) of
           None \<Rightarrow> None
         | Some r \<Rightarrow> if segment r \<in> set known_providers then Some (segment r) else None)
      else None)"

definition first_segment_provider :: "string \<Rightarrow> string option" where
  \<comment> \<open>The provider name \<open><p>\<close> of a path that begins with \<open>/<p>/\<close>.\<close>
  "first_segment_provider path =
     (case path of
        [] \<Rightarrow> None
      | c # r \<Rightarrow>
          if c = CHR ''/'' \<and> after_segment r \<noteq> None \<and> segment r \<in> set known_providers
          then Some (segment r) else None)"

definition named_provider :: "ProviderManager \<Rightarrow> string option \<Rightarrow> provider option" where
  "named_provider pm name = (case name of None \<Rightarrow> None | Some p \<Rightarrow> GetProvider pm p)"

definition spec_provider_for_request :: "ProviderManager \<Rightarrow> request \<Rightarrow> provider option" where
  \<comment> \<open>\<open>provider_for_request\<close> as the specification words it.\<close>
  "spec_provider_for_request pm req =
     (case spec_meta_provider (URL_Path req) of
        Some p \<Rightarrow> GetProvider pm p
      | None \<Rightarrow> named_provider pm (first_segment_provider (URL_Path req)))"

section \<open>The Groq adapter\<close>

definition groqHost :: string where
  \<comment> \<open>The host of \<open>groqBaseURL\<close>.\<close>
  "groqHost = ''api.groq.com''"

definition groq_GetName :: string where
  "groq_GetName = ''groq''"

definition CreateGenericDirector :: "string \<Rightarrow> string \<Rightarrow> request \<Rightarrow> request" where
  \<comment> \<open>Modelled from the spec: \<open>CreateGenericDirector\<close> is not among the sources. "On
      direction, the adapter sets \<open>Host\<close> to the upstream, rewrites the scheme, strips the
      \<open>/<provider>\<close> path prefix, leaves the body untouched, and forwards all headers."\<close>
  "CreateGenericDirector name host req =
     req\<lparr> URL_Host := host, URL_Path := TrimPrefix (URL_Path req) (CHR ''/'' # name) \<rparr>"

definition groq_Director :: "(request \<Rightarrow> request) \<Rightarrow> request \<Rightarrow> request" where
  \<comment> \<open>The \<open>proxy.Director\<close> that \<open>NewGroqProxy\<close> installs, over its base director.\<close>
  "groq_Director baseDirector req =
     (let req1 = baseDirector req in
      if \<not> HasPrefix (URL_Path req1) ''/openai/''
      then req1\<lparr> URL_Path := ''/openai'' @ URL_Path req1 \<rparr>
      else req1)"

definition spec_groq_path :: "string \<Rightarrow> string" where
  \<comment> \<open>The Groq tweak as the specification words it: the path is prefixed with
      \<open>/openai\<close>, and the prefix is added only when it is not already present.\<close>
  "spec_groq_path path = (if HasPrefix path ''/openai'' then path else ''/openai'' @ path)"

text \<open>
  The one method of the \<open>APIKeyStore\<close> interface that the adapter calls,
  \<open>ValidateAndGetActualKey\<close>, taken as a parameter: from the presented key to Go's triple
  \<open>(actualKey, provider, err)\<close>.
\<close>

type_synonym APIKeyStore = "string \<Rightarrow> string \<times> string \<times> error option"

definition groq_ValidateAPIKey :: "request \<Rightarrow> APIKeyStore \<Rightarrow> request \<times> error option" where
  \<comment> \<open>\<open>GroqProxy.ValidateAPIKey\<close>: the request as the call leaves it, and the error returned.\<close>
  "groq_ValidateAPIKey req keyStore =
     (let authHeader = Values_Get (Header req) ''Authorization'' in
      if authHeader = [] then (req, None)
      else
        (let bearerPrefix = ''Bearer '' in
         if \<not> HasPrefix authHeader bearerPrefix then (req, None)
         else
           (let apiKey = TrimPrefix authHeader bearerPrefix in
            case keyStore apiKey of
              (actualKey, provider, err) \<Rightarrow>
                (case err of
                   Some e \<Rightarrow> (req, Some (ErrValidationFailed e))
                 | None \<Rightarrow>
                     if provider \<noteq> [] \<and> provider \<noteq> groq_GetName
                     then (req, Some (ErrWrongProvider provider groq_GetName))
                     else if actualKey \<noteq> apiKey
                     then (req\<lparr> Header := Values_Set (Header req) ''Authorization''
                                               (bearerPrefix @ actualKey) \<rparr>, None)
                     else (req, None)))))"

section \<open>The response capture\<close>

text \<open>
  The downstream \<open>http.ResponseWriter\<close>, as the recorder of the repository's tests behaves:
  the header map that \<open>Header()\<close> returns, the status code once it is written (the first
  \<open>WriteHeader\<close> wins, and a \<open>Write\<close> before any \<open>WriteHeader\<close> writes 200), every byte
  passed to \<open>Write\<close>, in order, and \<open>rw_snapHeader\<close>, the copy of the header map that is
  taken when the status is written. That copy is what the response carries: the contract of
  \<open>http.ResponseWriter\<close> is that changing the header map after a call to \<open>WriteHeader\<close> or
  \<open>Write\<close> has no effect on the response, and \<open>ResponseRecorder.Result()\<close> reports the copy.
  The map itself stays writable, and \<open>Header().Set\<close> changes it at any time.
\<close>

record ResponseWriter =
  rw_header :: "string \<rightharpoonup> string list"
  rw_status :: "nat option"
  rw_body :: bytes
  rw_snapHeader :: "(string \<rightharpoonup> string list) option"

definition rw_WriteHeader :: "ResponseWriter \<Rightarrow> nat \<Rightarrow> ResponseWriter" where
  "rw_WriteHeader w code =
     (case rw_status w of
        None \<Rightarrow> w\<lparr> rw_status := Some code, rw_snapHeader := Some (rw_header w) \<rparr>
      | Some _ \<Rightarrow> w)"

definition rw_Write :: "ResponseWriter \<Rightarrow> bytes \<Rightarrow> ResponseWriter" where
  "rw_Write w b = (rw_WriteHeader w 200)\<lparr> rw_body := rw_body w @ b \<rparr>"

definition rw_Header_Set :: "ResponseWriter \<Rightarrow> string \<Rightarrow> string \<Rightarrow> ResponseWriter" where
  \<comment> \<open>\<open>w.Header().Set(k, v)\<close>: the map changes; a copy already taken does not.\<close>
  "rw_Header_Set w k v = w\<lparr> rw_header := Values_Set (rw_header w) k v \<rparr>"

definition response_header :: "ResponseWriter \<Rightarrow> (string \<rightharpoonup> string list)" where
  \<comment> \<open>The headers that the response carries: the copy taken when the status was written,
      or, when the handler has returned without writing, the header map as it is then
      (the server writes the status at that moment).\<close>
  "response_header w = (case rw_snapHeader w of Some h \<Rightarrow> h | None \<Rightarrow> rw_header w)"

text \<open>
  The struct \<open>responseCapture\<close>. \<open>parseCalls\<close> is not a field of the struct: it is the
  trace of the calls made to \<open>provider.ParseResponseMetadata\<close> on behalf of this response,
  each with the buffer and the streaming flag it was given.
\<close>

record responseCapture =
  ResponseWriter :: ResponseWriter
  body :: bytes
  isStreaming :: bool
  provider :: "provider option"
  lastMetadata :: "LLMResponseMetadata option"
  lastParsedPos :: nat
  parseCalls :: "(bytes \<times> bool) list"

definition parse_streaming :: "responseCapture \<Rightarrow> provider \<Rightarrow> responseCapture" where
  \<comment> \<open>The body of \<open>if rc.isStreaming && rc.provider != nil\<close> in \<open>Write\<close>.\<close>
  "parse_streaming rc p =
     (let allData = body rc in
      if length allData > lastParsedPos rc then
        (let rc1 = rc\<lparr> parseCalls := parseCalls rc @ [(allData, True)] \<rparr>;
             rc2 = (case ParseResponseMetadata p allData True of
                      (Some metadata, None) \<Rightarrow> rc1\<lparr> lastMetadata := Some metadata \<rparr>
                    | _ \<Rightarrow> rc1)
         in rc2\<lparr> lastParsedPos := length allData \<rparr>)
      else rc)"

definition Write :: "responseCapture \<Rightarrow> bytes \<Rightarrow> responseCapture" where
  \<comment> \<open>\<open>responseCapture.Write\<close>; its results are those of the downstream \<open>Write\<close>.\<close>
  "Write rc b =
     (let rc1 = rc\<lparr> body := body rc @ b \<rparr>;
          rc2 = (case provider rc1 of
                   Some p \<Rightarrow> if isStreaming rc1 then parse_streaming rc1 p else rc1
                 | None \<Rightarrow> rc1)
      in rc2\<lparr> ResponseWriter := rw_Write (ResponseWriter rc2) b \<rparr>)"

text \<open>
  What the inner handler does to the writer it is given: a sequence of calls. On the
  capture, \<open>Write\<close> is the capture's own method; \<open>WriteHeader\<close> and \<open>Header().Set\<close> are
  promoted from the embedded writer.
\<close>

datatype handler_op = OpWrite bytes | OpWriteHeader nat | OpHeaderSet string string

fun capture_op :: "responseCapture \<Rightarrow> handler_op \<Rightarrow> responseCapture" where
  "capture_op rc (OpWrite b) = Write rc b"
| "capture_op rc (OpWriteHeader code) = rc\<lparr> ResponseWriter := rw_WriteHeader (ResponseWriter rc) code \<rparr>"
| "capture_op rc (OpHeaderSet k v) = rc\<lparr> ResponseWriter := rw_Header_Set (ResponseWriter rc) k v \<rparr>"

fun writer_op :: "ResponseWriter \<Rightarrow> handler_op \<Rightarrow> ResponseWriter" where
  \<comment> \<open>The same calls made on a plain writer, with no capture in between.\<close>
  "writer_op w (OpWrite b) = rw_Write w b"
| "writer_op w (OpWriteHeader code) = rw_WriteHeader w code"
| "writer_op w (OpHeaderSet k v) = rw_Header_Set w k v"

fun written :: "handler_op list \<Rightarrow> bytes list" where
  \<comment> \<open>The arguments of the handler's \<open>Write\<close> calls, in order.\<close>
  "written [] = []"
| "written (OpWrite b # ops) = b # written ops"
| "written (_ # ops) = written ops"

type_synonym handler = "request \<Rightarrow> handler_op list"

section \<open>The token parsing middleware\<close>

definition digit :: "nat \<Rightarrow> char" where
  \<comment> \<open>The decimal digit of a number below ten.\<close>
  "digit d = ''0123456789'' ! d"

fun digits :: "nat \<Rightarrow> string" where
  "digits n = (if n < 10 then [digit n] else digits (n div 10) @ [digit (n mod 10)])"

definition Sprintf_d :: "int \<Rightarrow> string" where
  \<comment> \<open>\<open>fmt.Sprintf("%d", n)\<close>\<close>
  "Sprintf_d n = (if n < 0 then CHR ''-'' # digits (nat (- n)) else digits (nat n))"

definition isAPIEndpoint :: "string \<Rightarrow> bool" where
  "isAPIEndpoint path =
     (Contains path ''/chat/completions'' \<or>
      Contains path ''/completions'' \<or>
      Contains path ''/messages'' \<or>
      Contains path '':generateContent'' \<or>
      Contains path '':streamGenerateContent'')"

text \<open>
  A \<open>MetadataCallback\<close> acts on the world outside the middleware, of some type \<open>'s\<close>; a
  \<open>nil\<close> callback is \<open>None\<close>.
\<close>

type_synonym 's MetadataCallback = "request \<Rightarrow> LLMResponseMetadata \<Rightarrow> 's \<Rightarrow> 's"

definition run_callbacks ::
  "'s MetadataCallback option list \<Rightarrow> request \<Rightarrow> LLMResponseMetadata \<Rightarrow> 's \<Rightarrow> 's" where
  "run_callbacks callbacks r metadata s =
     fold (\<lambda>callback s. case callback of Some f \<Rightarrow> f r metadata s | None \<Rightarrow> s) callbacks s"

definition set_usage_headers :: "ResponseWriter \<Rightarrow> LLMResponseMetadata \<Rightarrow> ResponseWriter" where
  "set_usage_headers w metadata =
     (let w1 = rw_Header_Set w ''X-LLM-Input-Tokens'' (Sprintf_d (InputTokens metadata));
          w2 = rw_Header_Set w1 ''X-LLM-Output-Tokens'' (Sprintf_d (OutputTokens metadata));
          w3 = rw_Header_Set w2 ''X-LLM-Total-Tokens'' (Sprintf_d (TotalTokens metadata));
          w4 = rw_Header_Set w3 ''X-LLM-Thought-Tokens'' (Sprintf_d (ThoughtTokens metadata));
          w5 = rw_Header_Set w4 ''X-LLM-Provider'' (Provider metadata);
          w6 = rw_Header_Set w5 ''X-LLM-Model'' (Model metadata)
      in if RequestID metadata \<noteq> [] then rw_Header_Set w6 ''X-LLM-Request-ID'' (RequestID metadata)
         else w6)"

definition serve_captured ::
  "ProviderManager \<Rightarrow> handler \<Rightarrow> ResponseWriter \<Rightarrow> request \<Rightarrow> responseCapture" where
  \<comment> \<open>The start of the handler: the provider and the streaming intent are determined, the
      capture writer is made around \<open>w\<close>, and \<open>next.ServeHTTP(captureWriter, r)\<close> runs. The
      result is the capture writer when that call has returned.\<close>
  "serve_captured pm next w r =
     (let provider = GetProviderFromRequest pm r;
          isStreaming = IsStreamingRequest pm r;
          captureWriter = \<lparr> ResponseWriter = w, body = [], isStreaming = isStreaming,
                            provider = provider, lastMetadata = None, lastParsedPos = 0,
                            parseCalls = [] \<rparr>
      in foldl capture_op captureWriter (next r))"

definition final_metadata ::
  "responseCapture \<Rightarrow> provider \<Rightarrow> (LLMResponseMetadata option \<times> error option) \<times> (bytes \<times> bool) list" where
  \<comment> \<open>\<open>metadata\<close> and \<open>err\<close> as the middleware has them before \<open>if err != nil\<close>, and the
      calls made to the parser by then.\<close>
  "final_metadata rc p =
     (if isStreaming rc \<and> lastMetadata rc \<noteq> None then ((lastMetadata rc, None), parseCalls rc)
      else (ParseResponseMetadata p (body rc) (isStreaming rc),
            parseCalls rc @ [(body rc, isStreaming rc)]))"

definition TokenParsingMiddleware ::
  "ProviderManager \<Rightarrow> 's MetadataCallback option list \<Rightarrow> handler \<Rightarrow>
     ResponseWriter \<Rightarrow> request \<Rightarrow> 's \<Rightarrow> ResponseWriter \<times> 's \<times> (bytes \<times> bool) list" where
  \<comment> \<open>The handler that the middleware builds around \<open>next\<close>: the writer and the world as
      it leaves them, and the calls it made to the parser. \<open>w\<close> and the writer embedded
      in the capture are one object, so after \<open>ServeHTTP\<close> the middleware's \<open>w\<close> is \<open>w1\<close>;
      the capture's \<open>isStreaming\<close> field is the local variable of that name.\<close>
  "TokenParsingMiddleware pm callbacks next w r s =
     (let provider = GetProviderFromRequest pm r;
          captureWriter = serve_captured pm next w r;
          w1 = ResponseWriter captureWriter
      in case provider of
           None \<Rightarrow> (w1, s, parseCalls captureWriter)
         | Some p \<Rightarrow>
             if isAPIEndpoint (URL_Path r) then
               (case final_metadata captureWriter p of
                  ((metadata, err), calls) \<Rightarrow>
                    (case err of
                       Some e \<Rightarrow> (w1, s, calls)
                     | None \<Rightarrow>
                         (case metadata of
                            Some md \<Rightarrow> (set_usage_headers w1 md, run_callbacks callbacks r md s, calls)
                          | None \<Rightarrow> (w1, s, calls))))
             else (w1, s, parseCalls captureWriter))"

section \<open>Cost tracking\<close>

text \<open>
  Modelled from the spec: \<open>cost.CostTracker.TrackRequest\<close> is not among the sources. The
  sink "receives a completed UsageRecord per tracked request": it is the list of the
  records it has received, each with the arguments of the call.
\<close>

record UsageRecord =
  ur_metadata :: LLMResponseMetadata
  ur_userID :: string
  ur_ipAddress :: string
  ur_path :: string

definition TrackRequest ::
  "LLMResponseMetadata \<Rightarrow> string \<Rightarrow> string \<Rightarrow> string \<Rightarrow> UsageRecord list \<Rightarrow> UsageRecord list" where
  "TrackRequest metadata userID ipAddress path sink =
     sink @ [\<lparr> ur_metadata = metadata, ur_userID = userID, ur_ipAddress = ipAddress, ur_path = path \<rparr>]"

definition costTrackingCallback :: "ProviderManager \<Rightarrow> UsageRecord list MetadataCallback" where
  "costTrackingCallback pm r metadata sink =
     (if TotalTokens metadata > 0 then
        (let provider = GetProviderFromRequest pm r;
             userID = ExtractUserIDFromRequest r provider;
             ipAddress = ExtractIPAddressFromRequest r
         in TrackRequest metadata userID ipAddress (URL_Path r) sink)
      else sink)"

definition main_callbacks :: "bool \<Rightarrow> ProviderManager \<Rightarrow> UsageRecord list MetadataCallback option list" where
  \<comment> \<open>The callbacks that \<open>runServer\<close> registers: the cost tracking callback when there is
      a cost tracker, none otherwise.\<close>
  "main_callbacks costTracker pm = (if costTracker then [Some (costTrackingCallback pm)] else [])"

section \<open>Notions for stating the claims about the middleware\<close>

text \<open>
  The metadata that the middleware goes on to use (headers, callbacks): there is one when
  a provider is resolved, the path is an API endpoint, and \<open>metadata\<close> is not \<open>nil\<close> while
  \<open>err\<close> is. \<open>middleware_writer\<close> and \<open>middleware_world\<close> below say that this is what
  \<open>TokenParsingMiddleware\<close> does.
\<close>

definition delivered_metadata ::
  "ProviderManager \<Rightarrow> handler \<Rightarrow> ResponseWriter \<Rightarrow> request \<Rightarrow> LLMResponseMetadata option" where
  "delivered_metadata pm next w r =
     (case GetProviderFromRequest pm r of
        None \<Rightarrow> None
      | Some p \<Rightarrow>
          if isAPIEndpoint (URL_Path r) then
            (case fst (final_metadata (serve_captured pm next w r) p) of
               (Some md, None) \<Rightarrow> Some md
             | _ \<Rightarrow> None)
          else None)"



text \<open>The record that the cost tracking callback hands to the sink for a request.\<close>

definition usage_record_for ::
  "ProviderManager \<Rightarrow> request \<Rightarrow> LLMResponseMetadata \<Rightarrow> UsageRecord" where
  "usage_record_for pm r md =
     \<lparr> ur_metadata = md,
       ur_userID = ExtractUserIDFromRequest r (GetProviderFromRequest pm r),
       ur_ipAddress = ExtractIPAddressFromRequest r,
       ur_path = URL_Path r \<rparr>"

section \<open>The identity order as the specification words it\<close>

fun first_nonempty :: "string list \<Rightarrow> string" where
  \<comment> \<open>The first non-empty string of a list of candidates, the empty string when there is none.\<close>
  "first_nonempty [] = []"
| "first_nonempty (x # xs) = (if x \<noteq> [] then x else first_nonempty xs)"

definition meta_userID_segment :: "string \<Rightarrow> string" where
  \<comment> \<open>The userID segment of a path beginning \<open>/meta/\<close>: what follows that prefix, up to the
      next slash. Empty for any other path.\<close>
  "meta_userID_segment path =
     (if HasPrefix path ''/meta/'' then takeWhile (\<lambda>c. c \<noteq> CHR ''/'') (drop 6 path) else [])"

definition bearer_token_identity :: "string \<Rightarrow> string" where
  \<comment> \<open>\<open>token:\<close> followed by the first 8 bytes of the bearer token; empty when the
      \<open>Authorization\<close> value is not a bearer credential.\<close>
  "bearer_token_identity auth =
     (if HasPrefix auth ''Bearer '' then ''token:'' @ take 8 (drop 7 auth) else [])"

definition identity_candidates :: "request \<Rightarrow> provider option \<Rightarrow> string list" where
  \<comment> \<open>The candidates before the IP fallback, in the order of the specification.\<close>
  "identity_candidates req prov =
     [ (case ctx_userID req of Some u \<Rightarrow> u | None \<Rightarrow> []),
       meta_userID_segment (URL_Path req),
       Values_Get (Header req) ''X-User-ID'',
       (case prov of Some p \<Rightarrow> UserIDFromRequest p req | None \<Rightarrow> []),
       Values_Get (URL_Query req) ''llm_user_id'',
       bearer_token_identity (Values_Get (Header req) ''Authorization'') ]"

definition spec_identity :: "request \<Rightarrow> provider option \<Rightarrow> string" where
  "spec_identity req prov =
     first_nonempty (identity_candidates req prov @ [''ip:'' @ ExtractIPAddressFromRequest req])"

section \<open>Concrete requests\<close>

definition bare_request :: request where
  \<comment> \<open>\<open>http.NewRequest("POST", "/test", nil)\<close>: no header, no query, no context value and
      no remote address.\<close>
  "bare_request =
     \<lparr> Method = ''POST'', URL_Host = [], URL_Path = ''/test'', URL_Query = Map.empty,
       Header = Map.empty, RemoteAddr = [], ctx_userID = None \<rparr>"

text \<open>
  The provider of the middleware's tests, \<open>FailingMockProvider\<close>: its parser fails with
  \<open>parseError\<close> when \<open>parseShouldFail\<close> is set and returns a fixed metadata otherwise. A
  manager with one registered provider and a fixed answer to \<open>IsStreamingRequest\<close>.
\<close>

definition FailingMockProvider :: "string \<Rightarrow> bool \<Rightarrow> error \<Rightarrow> provider" where
  "FailingMockProvider name parseShouldFail parseError =
     \<lparr> GetName = name,
       UserIDFromRequest = (\<lambda>req. []),
       ParseResponseMetadata = (\<lambda>responseBody isStreaming.
         if parseShouldFail then (None, Some parseError)
         else (Some \<lparr> Model = ''test-model'', InputTokens = 10, OutputTokens = 5,
                      TotalTokens = 15, ThoughtTokens = 0, Provider = name, RequestID = [],
                      IsStreaming = isStreaming, FinishReason = [] \<rparr>, None)) \<rparr>"

definition mock_manager :: "provider \<Rightarrow> bool \<Rightarrow> ProviderManager" where
  "mock_manager p streaming = \<lparr> providers = [GetName p \<mapsto> p], IsStreamingRequest = (\<lambda>req. streaming) \<rparr>"

text \<open>
  A key store that knows two proxy keys, one bound to Groq and one to OpenAI, reports any
  other key of the proxy's \<open>iw:\<close> format as an error and passes every other key through
  unbound. A request that presents a bearer token to the Groq routes.
\<close>

definition example_keyStore :: APIKeyStore where
  "example_keyStore apiKey =
     (if apiKey = ''iw:abcd1234'' then (''gsk_real'', ''groq'', None)
      else if apiKey = ''iw:openai01'' then (''sk-real'', ''openai'', None)
      else if HasPrefix apiKey ''iw:'' then ([], [], Some (Err ''API key not found''))
      else (apiKey, [], None))"

definition bearer_request :: "string \<Rightarrow> request" where
  "bearer_request token = bare_request\<lparr> URL_Path := ''/groq/v1/chat/completions'',
       Header := [''Authorization'' \<mapsto> [''Bearer '' @ token]] \<rparr>"

text \<open>
  A callback that records the metadata it receives, as the callbacks of the tests do, and
  a fresh downstream writer.
\<close>

definition record_callback :: "LLMResponseMetadata list MetadataCallback" where
  "record_callback r metadata received = received @ [metadata]"

definition new_writer :: ResponseWriter where
  "new_writer = \<lparr> rw_header = Map.empty, rw_status = None, rw_body = [], rw_snapHeader = None \<rparr>"

text \<open>
  The OpenAI unary scenario of the specification: the response body, the metadata an
  OpenAI adapter reads from it, and a provider whose parser does so on that body. The
  request is to the chat completions endpoint, with the remote address that
  \<open>httptest.NewRequest\<close> gives.
\<close>

definition scenario_body :: bytes where
  \<open>scenario_body = ''{"id":"chatcmpl-1","model":"gpt-4o-mini","usage":{"prompt_tokens":7,"completion_tokens":5,"total_tokens":12},"choices":[{"finish_reason":"stop"}]}''\<close>

definition scenario_metadata :: LLMResponseMetadata where
  "scenario_metadata =
     \<lparr> Model = ''gpt-4o-mini'', InputTokens = 7, OutputTokens = 5, TotalTokens = 12,
       ThoughtTokens = 0, Provider = ''openai'', RequestID = ''chatcmpl-1'',
       IsStreaming = False, FinishReason = ''stop'' \<rparr>"

definition scenario_provider :: provider where
  "scenario_provider =
     \<lparr> GetName = ''openai'',
       UserIDFromRequest = (\<lambda>req. []),
       ParseResponseMetadata = (\<lambda>responseBody isStreaming.
         if responseBody = scenario_body \<and> \<not> isStreaming then (Some scenario_metadata, None)
         else (None, Some (Err ''unexpected response''))) \<rparr>"

definition chat_request :: request where
  "chat_request = bare_request\<lparr> URL_Path := ''/openai/v1/chat/completions'',
                                 RemoteAddr := ''192.0.2.1:1234'' \<rparr>"

definition scenario_response :: ResponseWriter where
  \<comment> \<open>The downstream writer after the middleware has served the scenario: the inner
      handler writes the status 200 and the upstream's body.\<close>
  "scenario_response =
     fst (TokenParsingMiddleware (mock_manager scenario_provider False) []
            (\<lambda>r. [OpWriteHeader 200, OpWrite scenario_body]) new_writer chat_request ())"

text \<open>
  The response body of \<open>TestTokenParsingMiddleware_ParsingFailureContinuesProxy\<close>, a request
  to a provider route that is not an API endpoint, the mock provider with a parser that
  succeeds, and a handler that writes two chunks with an empty write in between.
\<close>

definition failing_body :: bytes where
  \<open>failing_body = ''{"invalid": "json", "that": "will", "fail": "parsing"}''\<close>


definition mock_ok :: provider where
  "mock_ok = FailingMockProvider ''openai'' False (Err ''unused'')"

definition sse_handler :: handler where
  "sse_handler r = [OpWriteHeader 200, OpWrite ''data: a'', OpWrite [], OpWrite ''data: b'']"

section \<open>Splitting a path\<close>

lemma Split_not_Nil: "Split s sep \<noteq> []"
  by (induction s) (auto split: list.splits)

lemma hd_Split: "hd (Split s sep) = takeWhile (\<lambda>c. c \<noteq> sep) s"
  by (induction s) (auto split: list.splits simp: Split_not_Nil)

lemma Split_meta: "Split (''/meta/'' @ rest) CHR ''/'' = [] # ''meta'' # Split rest CHR ''/''"
  by simp

lemma meta_prefix_decomp:
  assumes "HasPrefix path ''/meta/''"
  shows "path = ''/meta/'' @ drop 6 path"
proof -
  have len: "length ''/meta/'' = 6" by simp
  have "take 6 path = ''/meta/''" using assms unfolding HasPrefix_def len .
  then show ?thesis by (metis append_take_drop_id)
qed

lemma Split_meta_path:
  assumes "HasPrefix path ''/meta/''"
  shows "Split path CHR ''/'' = [] # ''meta'' # Split (drop 6 path) CHR ''/''"
  by (subst meta_prefix_decomp[OF assms]) (simp only: Split_meta)

section \<open>Identity resolution: the priority order\<close>

lemma path_userID_spec:
  "path_userID path =
     (if meta_userID_segment path \<noteq> [] then Some (meta_userID_segment path) else None)"
proof (cases "HasPrefix path ''/meta/''")
  case False
  then show ?thesis by (simp add: path_userID_def meta_userID_segment_def)
next
  case True
  obtain q qs where q: "Split (drop 6 path) CHR ''/'' = q # qs"
    using Split_not_Nil by (cases "Split (drop 6 path) CHR ''/''") auto
  have hq: "q = takeWhile (\<lambda>c. c \<noteq> CHR ''/'') (drop 6 path)"
    using hd_Split[of "drop 6 path" "CHR ''/''"] q by simp
  have s: "Split path CHR ''/'' = [] # ''meta'' # q # qs"
    using Split_meta_path[OF True] q by simp
  show ?thesis using True s hq
    by (simp add: path_userID_def meta_userID_segment_def Let_def)
qed

lemma bearer_tokenID_spec:
  "auth \<noteq> [] \<Longrightarrow>
   bearer_tokenID auth =
     (if bearer_token_identity auth \<noteq> [] then Some (bearer_token_identity auth) else None)"
  by (simp add: bearer_tokenID_def bearer_token_identity_def Let_def)

lemma bearer_token_identity_Nil: "bearer_token_identity [] = []"
  by (simp add: bearer_token_identity_def HasPrefix_def)

lemma ExtractUserID_refines:
  "ExtractUserIDFromRequest req prov = spec_identity req prov"
  unfolding ExtractUserIDFromRequest_def spec_identity_def identity_candidates_def
  by (cases "Values_Get (Header req) ''Authorization'' = []")
     (auto simp: path_userID_spec bearer_tokenID_spec bearer_token_identity_Nil Let_def
         split: option.splits)

text \<open>
  C1. The identity that \<open>ExtractUserIDFromRequest\<close> resolves is the first non-empty value
  in the order: the user ID on the request context, the userID segment of a path beginning
  \<open>/meta/\<close>, the \<open>X-User-ID\<close> header, the provider's body field, the \<open>llm_user_id\<close> query
  parameter, \<open>token:\<close> with the first 8 bytes of the bearer token, and finally \<open>ip:\<close> with
  the client IP address.
\<close>

theorem identity_priority_order:
  "ExtractUserIDFromRequest req prov =
     first_nonempty
       [ (case ctx_userID req of Some u \<Rightarrow> u | None \<Rightarrow> []),
         meta_userID_segment (URL_Path req),
         Values_Get (Header req) ''X-User-ID'',
         (case prov of Some p \<Rightarrow> UserIDFromRequest p req | None \<Rightarrow> []),
         Values_Get (URL_Query req) ''llm_user_id'',
         bearer_token_identity (Values_Get (Header req) ''Authorization''),
         ''ip:'' @ ExtractIPAddressFromRequest req ]"
  using ExtractUserID_refines[of req prov]
  by (simp add: spec_identity_def identity_candidates_def)

theorem identity_priority_order_witness:
  "ExtractUserIDFromRequest
     (bare_request\<lparr> URL_Query := [''llm_user_id'' \<mapsto> [''queryuser'']],
                    Header := [''Authorization'' \<mapsto> [''Bearer abc12345token'']] \<rparr>) None
   = ''queryuser''
   \<and> ExtractUserIDFromRequest
     (bare_request\<lparr> Header := [''Authorization'' \<mapsto> [''Bearer abc12345token'']] \<rparr>) None
   = ''token:abc12345''"
  by (simp add: identity_priority_order bare_request_def Values_Get_def
        meta_userID_segment_def bearer_token_identity_def HasPrefix_def
        ExtractIPAddressFromRequest_def)

section \<open>Identity resolution: the result is never empty\<close>

lemma first_nonempty_Nil_iff: "first_nonempty xs = [] \<longleftrightarrow> (\<forall>x \<in> set xs. x = [])"
  by (induction xs) auto

lemma first_nonempty_all_empty:
  "\<forall>x \<in> set xs. x = [] \<Longrightarrow> first_nonempty (xs @ ys) = first_nonempty ys"
  by (induction xs) auto

text \<open>
  C10, as stated, at a request whose remote address is empty and that carries no
  forwarding header: the IP address is the empty string, and the identity is \<open>ip:\<close> alone.
\<close>

theorem ip_address_empty_counterexample:
  "ExtractIPAddressFromRequest bare_request = []
   \<and> ExtractUserIDFromRequest bare_request None = ''ip:''"
  by (simp add: ExtractIPAddressFromRequest_def ExtractUserIDFromRequest_def bare_request_def
        Values_Get_def path_userID_def HasPrefix_def)

text \<open>
  C10, amended. \<open>ExtractUserIDFromRequest\<close> never returns the empty string. When no
  context value, meta-URL segment, header, body field, query parameter or bearer token
  yields an identity, it returns \<open>ip:\<close> followed by the request's IP address, which is the
  first non-empty of \<open>X-Forwarded-For\<close>, \<open>X-Real-IP\<close> and the remote address, and is
  non-empty whenever the remote address is.
\<close>

theorem identity_never_empty:
  "ExtractUserIDFromRequest req prov \<noteq> []
   \<and> ((\<forall>c \<in> set (identity_candidates req prov). c = []) \<longrightarrow>
        ExtractUserIDFromRequest req prov = ''ip:'' @ ExtractIPAddressFromRequest req)
   \<and> ExtractIPAddressFromRequest req =
        first_nonempty [ Values_Get (Header req) ''X-Forwarded-For'',
                         Values_Get (Header req) ''X-Real-IP'',
                         RemoteAddr req ]
   \<and> (RemoteAddr req \<noteq> [] \<longrightarrow> ExtractIPAddressFromRequest req \<noteq> [])"
proof -
  have a: "ExtractUserIDFromRequest req prov \<noteq> []"
    by (simp add: ExtractUserID_refines spec_identity_def first_nonempty_Nil_iff)
  have b: "(\<forall>c \<in> set (identity_candidates req prov). c = []) \<longrightarrow>
        ExtractUserIDFromRequest req prov = ''ip:'' @ ExtractIPAddressFromRequest req"
    by (simp add: ExtractUserID_refines spec_identity_def first_nonempty_all_empty)
  have c: "ExtractIPAddressFromRequest req =
        first_nonempty [ Values_Get (Header req) ''X-Forwarded-For'',
                         Values_Get (Header req) ''X-Real-IP'',
                         RemoteAddr req ]"
    by (simp add: ExtractIPAddressFromRequest_def Let_def)
  have d: "RemoteAddr req \<noteq> [] \<longrightarrow> ExtractIPAddressFromRequest req \<noteq> []"
    by (simp add: ExtractIPAddressFromRequest_def Let_def)
  from a b c d show ?thesis by blast
qed

theorem identity_never_empty_witness:
  "identity_candidates (bare_request\<lparr> RemoteAddr := ''192.168.1.100:8080'' \<rparr>) None
       = [[], [], [], [], [], []]
   \<and> RemoteAddr (bare_request\<lparr> RemoteAddr := ''192.168.1.100:8080'' \<rparr>) \<noteq> []
   \<and> ExtractUserIDFromRequest (bare_request\<lparr> RemoteAddr := ''192.168.1.100:8080'' \<rparr>) None
       = ''ip:192.168.1.100:8080''
   \<and> ExtractIPAddressFromRequest (bare_request\<lparr> RemoteAddr := ''192.168.1.100:8080'' \<rparr>) \<noteq> []"
proof -
  let ?r = "bare_request\<lparr> RemoteAddr := ''192.168.1.100:8080'' \<rparr>"
  have h: "identity_candidates ?r None = [[], [], [], [], [], []]"
    by (simp add: identity_candidates_def bare_request_def Values_Get_def
          meta_userID_segment_def bearer_token_identity_def HasPrefix_def)
  have r: "RemoteAddr ?r \<noteq> []" by (simp add: bare_request_def)
  have ip: "ExtractIPAddressFromRequest ?r = ''192.168.1.100:8080''"
    by (simp add: ExtractIPAddressFromRequest_def bare_request_def Values_Get_def)
  from identity_never_empty[of ?r None] h r ip show ?thesis by simp
qed

section \<open>Provider classification\<close>

lemma Split_unfold:
  "Split s sep = takeWhile (\<lambda>c. c \<noteq> sep) s #
      (case dropWhile (\<lambda>c. c \<noteq> sep) s of [] \<Rightarrow> [] | _ # t \<Rightarrow> Split t sep)"
  by (induction s) simp_all

lemma Split_segment:
  "Split s CHR ''/'' = segment s # (case after_segment s of None \<Rightarrow> [] | Some t \<Rightarrow> Split t CHR ''/'')"
proof (cases "dropWhile (\<lambda>c. c \<noteq> CHR ''/'') s")
  case Nil
  show ?thesis by (subst Split_unfold) (simp add: segment_def after_segment_def Nil)
next
  case (Cons a t)
  show ?thesis by (subst Split_unfold) (simp add: segment_def after_segment_def Cons)
qed

lemma meta_switch_spec:
  "meta_switch pm path = map_option (GetProvider pm) (meta_provider_segment path)"
proof (cases "HasPrefix path ''/meta/''")
  case False
  then show ?thesis by (simp add: meta_switch_def meta_provider_segment_def)
next
  case True
  have s: "Split path CHR ''/'' = [] # ''meta'' # Split (drop 6 path) CHR ''/''"
    by (rule Split_meta_path[OF True])
  show ?thesis
  proof (cases "after_segment (drop 6 path)")
    case None
    then have "Split path CHR ''/'' = [[], ''meta'', segment (drop 6 path)]"
      using s Split_segment[of "drop 6 path"] by simp
    then show ?thesis using True None
      by (simp add: meta_switch_def meta_provider_segment_def)
  next
    case (Some r)
    obtain ps where "Split r CHR ''/'' = segment r # ps"
      using Split_segment[of r] by blast
    then have "Split path CHR ''/'' = [] # ''meta'' # segment (drop 6 path) # segment r # ps"
      using s Split_segment[of "drop 6 path"] Some by simp
    then show ?thesis using True Some
      by (simp add: meta_switch_def meta_provider_segment_def known_providers_def Let_def)
  qed
qed

lemma HasPrefix_segment:
  assumes "CHR ''/'' \<notin> set p"
  shows "HasPrefix (CHR ''/'' # r) (CHR ''/'' # p @ ''/'') \<longleftrightarrow> segment r = p \<and> after_segment r \<noteq> None"
proof
  assume "HasPrefix (CHR ''/'' # r) (CHR ''/'' # p @ ''/'')"
  then have "take (length p + 1) r = p @ ''/''" by (simp add: HasPrefix_def)
  then have "r = p @ CHR ''/'' # drop (length p + 1) r" by (metis append_take_drop_id append.assoc append_Cons append_Nil)
  then obtain t where r: "r = p @ CHR ''/'' # t" by blast
  have np: "\<And>x. x \<in> set p \<Longrightarrow> x \<noteq> CHR ''/''" using assms by auto
  have tw: "takeWhile (\<lambda>c. c \<noteq> CHR ''/'') (p @ CHR ''/'' # t) = p"
    using np by (simp add: takeWhile_append2)
  have dw: "dropWhile (\<lambda>c. c \<noteq> CHR ''/'') (p @ CHR ''/'' # t) = CHR ''/'' # t"
    using np by (simp add: dropWhile_append2)
  show "segment r = p \<and> after_segment r \<noteq> None"
    unfolding r segment_def after_segment_def tw dw by simp
next
  assume a: "segment r = p \<and> after_segment r \<noteq> None"
  then obtain a t where at: "dropWhile (\<lambda>c. c \<noteq> CHR ''/'') r = a # t"
    by (cases "dropWhile (\<lambda>c. c \<noteq> CHR ''/'') r") (auto simp: after_segment_def)
  have "a = CHR ''/''" using hd_dropWhile[of "\<lambda>c. c \<noteq> CHR ''/''" r] at by simp
  with at have "dropWhile (\<lambda>c. c \<noteq> CHR ''/'') r = CHR ''/'' # t" by simp
  then have "r = p @ CHR ''/'' # t" using a takeWhile_dropWhile_id[of "\<lambda>c. c \<noteq> CHR ''/''" r]
    by (simp add: segment_def)
  then show "HasPrefix (CHR ''/'' # r) (CHR ''/'' # p @ ''/'')" by (simp add: HasPrefix_def)
qed

lemma direct_paths_spec:
  "(if HasPrefix path ''/openai/'' then GetProvider pm ''openai''
    else if HasPrefix path ''/anthropic/'' then GetProvider pm ''anthropic''
    else if HasPrefix path ''/gemini/'' then GetProvider pm ''gemini''
    else if HasPrefix path ''/groq/'' then GetProvider pm ''groq''
    else None) = named_provider pm (first_segment_provider path)"
proof (cases path)
  case Nil
  then show ?thesis by (simp add: HasPrefix_def first_segment_provider_def named_provider_def)
next
  case (Cons c r)
  show ?thesis
  proof (cases "c = CHR ''/''")
    case False
    then show ?thesis using Cons by (simp add: HasPrefix_def first_segment_provider_def named_provider_def)
  next
    case True
    note h = HasPrefix_segment[of "''openai''" r, simplified]
      HasPrefix_segment[of "''anthropic''" r, simplified]
      HasPrefix_segment[of "''gemini''" r, simplified]
      HasPrefix_segment[of "''groq''" r, simplified]
    show ?thesis unfolding Cons True
      by (simp only: h) (auto simp: first_segment_provider_def named_provider_def known_providers_def)
  qed
qed

lemma GetProviderFromRequest_spec:
  "GetProviderFromRequest pm req =
     (case meta_provider_segment (URL_Path req) of
        Some p \<Rightarrow> GetProvider pm p
      | None \<Rightarrow> named_provider pm (first_segment_provider (URL_Path req)))"
  unfolding GetProviderFromRequest_def Let_def meta_switch_spec direct_paths_spec
  by (simp split: option.splits)


lemma first_segment_provider_iff:
  "first_segment_provider path = Some p \<longleftrightarrow>
     p \<in> set known_providers \<and> HasPrefix path (CHR ''/'' # p @ ''/'')"
proof (cases path)
  case Nil
  then show ?thesis by (simp add: first_segment_provider_def HasPrefix_def)
next
  case (Cons c r)
  have ns: "p \<in> set known_providers \<Longrightarrow> CHR ''/'' \<notin> set p"
    by (auto simp: known_providers_def)
  show ?thesis
  proof (cases "c = CHR ''/''")
    case False
    then show ?thesis using Cons by (simp add: first_segment_provider_def HasPrefix_def)
  next
    case True
    show ?thesis unfolding Cons True using ns HasPrefix_segment[of p r]
      by (auto simp: first_segment_provider_def)
  qed
qed

lemma meta_provider_segment_iff:
  "meta_provider_segment path = Some p \<longleftrightarrow>
     p \<in> set known_providers \<and>
     (\<exists>u rest. CHR ''/'' \<notin> set u \<and> path = ''/meta/'' @ u @ ''/'' @ p @ rest \<and>
                (rest = [] \<or> hd rest = CHR ''/''))"
proof
  assume a: "meta_provider_segment path = Some p"
  then have pre: "HasPrefix path ''/meta/''"
    by (auto simp: meta_provider_segment_def split: if_splits)
  from a pre obtain r where r: "after_segment (drop 6 path) = Some r" and
     p: "segment r = p" and k: "p \<in> set known_providers"
    by (auto simp: meta_provider_segment_def split: option.splits if_splits)
  let ?P = "\<lambda>c. c \<noteq> CHR ''/''"
  from r obtain a0 where d: "dropWhile ?P (drop 6 path) = a0 # r"
    by (auto simp: after_segment_def split: list.splits)
  have "a0 = CHR ''/''" using hd_dropWhile[of ?P "drop 6 path"] d by simp
  then have e1: "drop 6 path = takeWhile ?P (drop 6 path) @ ''/'' @ r"
    using takeWhile_dropWhile_id[of ?P "drop 6 path"] d by simp
  have e2: "r = p @ dropWhile ?P r"
    using takeWhile_dropWhile_id[of ?P r] p unfolding segment_def by metis
  have u: "CHR ''/'' \<notin> set (takeWhile ?P (drop 6 path))"
    by (auto dest: set_takeWhileD)
  have rest: "dropWhile ?P r = [] \<or> hd (dropWhile ?P r) = CHR ''/''"
    using hd_dropWhile[of ?P r] by auto
  have "path = ''/meta/'' @ takeWhile ?P (drop 6 path) @ ''/'' @ p @ dropWhile ?P r"
    using meta_prefix_decomp[OF pre] e1 e2 by (metis append_assoc)
  with k u rest show "p \<in> set known_providers \<and>
     (\<exists>u rest. CHR ''/'' \<notin> set u \<and> path = ''/meta/'' @ u @ ''/'' @ p @ rest \<and>
                (rest = [] \<or> hd rest = CHR ''/''))" by blast
next
  assume "p \<in> set known_providers \<and>
     (\<exists>u rest. CHR ''/'' \<notin> set u \<and> path = ''/meta/'' @ u @ ''/'' @ p @ rest \<and>
                (rest = [] \<or> hd rest = CHR ''/''))"
  then obtain u rest where k: "p \<in> set known_providers" and u: "CHR ''/'' \<notin> set u"
    and path: "path = ''/meta/'' @ u @ ''/'' @ p @ rest" and rest: "rest = [] \<or> hd rest = CHR ''/''"
    by blast
  let ?P = "\<lambda>c. c \<noteq> CHR ''/''"
  have np: "CHR ''/'' \<notin> set p" using k by (auto simp: known_providers_def)
  have pre: "HasPrefix path ''/meta/''" unfolding path by (simp add: HasPrefix_def)
  have d6: "drop 6 path = u @ CHR ''/'' # p @ rest" unfolding path by simp
  have nu: "\<And>x. x \<in> set u \<Longrightarrow> x \<noteq> CHR ''/''" using u by auto
  have npx: "\<And>x. x \<in> set p \<Longrightarrow> x \<noteq> CHR ''/''" using np by auto
  have "dropWhile ?P (u @ CHR ''/'' # p @ rest) = CHR ''/'' # p @ rest"
    using nu by (simp add: dropWhile_append2)
  then have as: "after_segment (drop 6 path) = Some (p @ rest)"
    by (simp add: after_segment_def d6)
  have "takeWhile ?P (p @ rest) = p"
  proof (cases rest)
    case Nil
    then show ?thesis using npx by (simp add: takeWhile_eq_all_conv)
  next
    case (Cons c cs)
    then have "c = CHR ''/''" using rest by simp
    then show ?thesis using npx Cons by (simp add: takeWhile_append2)
  qed
  then have "segment (p @ rest) = p" by (simp add: segment_def)
  then show "meta_provider_segment path = Some p"
    using pre as k by (simp add: meta_provider_segment_def)
qed


text \<open>
  C7, as stated, at the path \<open>/meta/u/openai\<close> with a manager that has the provider
  \<open>openai\<close> registered. The path does not begin with \<open>/meta/<u>/<p>/\<close>, since no slash
  follows \<open>openai\<close>, and its first segment is \<open>meta\<close>, so the claim gives no provider;
  \<open>GetProviderFromRequest\<close> returns the provider \<open>openai\<close>.
\<close>

theorem provider_meta_counterexample:
  "map_option GetName
     (GetProviderFromRequest (mock_manager (FailingMockProvider ''openai'' True (Err ''e'')) False)
        (bare_request\<lparr> URL_Path := ''/meta/u/openai'' \<rparr>)) = Some ''openai''
   \<and> spec_provider_for_request (mock_manager (FailingMockProvider ''openai'' True (Err ''e'')) False)
        (bare_request\<lparr> URL_Path := ''/meta/u/openai'' \<rparr>) = None"
  by (simp add: GetProviderFromRequest_def meta_switch_def spec_provider_for_request_def
        spec_meta_provider_def first_segment_provider_def named_provider_def after_segment_def
        segment_def known_providers_def HasPrefix_def GetProvider_def mock_manager_def
        FailingMockProvider_def bare_request_def)

text \<open>
  C7, amended. \<open>GetProviderFromRequest\<close> resolves by path: if the path begins with
  \<open>/meta/<u>/<p>\<close>, where \<open><p>\<close> is one of the provider names and is followed by a slash
  or by the end of the path, the provider registered as \<open><p>\<close> is returned; otherwise, if
  the path begins with \<open>/<p>/\<close>, the provider registered as \<open><p>\<close> is returned; otherwise
  none. (\<open>meta_provider_segment_iff\<close> and \<open>first_segment_provider_iff\<close> say what the two
  conditions are.)
\<close>

theorem provider_classification:
  "GetProviderFromRequest pm req =
     (case meta_provider_segment (URL_Path req) of
        Some p \<Rightarrow> GetProvider pm p
      | None \<Rightarrow>
          (case first_segment_provider (URL_Path req) of
             Some p \<Rightarrow> GetProvider pm p
           | None \<Rightarrow> None))"
  using GetProviderFromRequest_spec[of pm req]
  by (simp add: named_provider_def split: option.splits)

theorem provider_classification_witness:
  "map_option GetName
     (GetProviderFromRequest (mock_manager (FailingMockProvider ''openai'' True (Err ''e'')) False)
        (bare_request\<lparr> URL_Path := ''/meta/u/openai/v1/chat/completions'' \<rparr>)) = Some ''openai''
  \<and> map_option GetName
     (GetProviderFromRequest (mock_manager (FailingMockProvider ''openai'' True (Err ''e'')) False)
        (bare_request\<lparr> URL_Path := ''/openai/v1/chat/completions'' \<rparr>)) = Some ''openai''
  \<and> GetProviderFromRequest (mock_manager (FailingMockProvider ''openai'' True (Err ''e'')) False)
        (bare_request\<lparr> URL_Path := ''/unknown/path'' \<rparr>) = None"
  by (simp add: provider_classification meta_provider_segment_def
        first_segment_provider_def named_provider_def after_segment_def
        segment_def known_providers_def HasPrefix_def GetProvider_def mock_manager_def
        FailingMockProvider_def bare_request_def)

section \<open>The Groq adapter\<close>

lemma HasPrefix_iff: "HasPrefix s pre \<longleftrightarrow> (\<exists>t. s = pre @ t)"
proof
  assume "HasPrefix s pre"
  then have "s = pre @ drop (length pre) s"
    unfolding HasPrefix_def by (metis append_take_drop_id)
  then show "\<exists>t. s = pre @ t" ..
next
  assume "\<exists>t. s = pre @ t"
  then show "HasPrefix s pre" by (auto simp: HasPrefix_def)
qed

lemma HasPrefix_weaken: "HasPrefix s (a @ b) \<Longrightarrow> HasPrefix s a"
  by (auto simp: HasPrefix_iff)

lemma TrimPrefix_append: "TrimPrefix (pre @ t) pre = t"
  by (simp add: TrimPrefix_def HasPrefix_def)

text \<open>
  C8, as stated, at the client path \<open>/groq/openai\<close>. The generic director strips \<open>/groq\<close>
  and leaves \<open>/openai\<close>, a path on which the prefix \<open>/openai\<close> is present; adding it only
  when it is not already present leaves the path as it is, and the Groq director adds it
  again.
\<close>

theorem groq_prefix_counterexample:
  "URL_Path (CreateGenericDirector groq_GetName groqHost
               (bare_request\<lparr> URL_Path := ''/groq/openai'' \<rparr>)) = ''/openai''
   \<and> spec_groq_path (URL_Path (CreateGenericDirector groq_GetName groqHost
               (bare_request\<lparr> URL_Path := ''/groq/openai'' \<rparr>))) = ''/openai''
   \<and> URL_Path (groq_Director (CreateGenericDirector groq_GetName groqHost)
               (bare_request\<lparr> URL_Path := ''/groq/openai'' \<rparr>)) = ''/openai/openai''
   \<and> spec_groq_path ''/openaix/v1'' = ''/openaix/v1''
   \<and> URL_Path (groq_Director (\<lambda>r. r) (bare_request\<lparr> URL_Path := ''/openaix/v1'' \<rparr>))
       = ''/openai/openaix/v1''"
  by (simp add: groq_Director_def CreateGenericDirector_def groq_GetName_def groqHost_def
        spec_groq_path_def bare_request_def HasPrefix_def TrimPrefix_def Let_def)

text \<open>
  C8, amended. Whatever the base director leaves as the path, the Groq director prepends
  \<open>/openai\<close> exactly when that path does not begin with \<open>/openai/\<close>, the prefix with its
  closing slash; a path that is \<open>/openai\<close> alone, or that goes on after \<open>/openai\<close> with
  another byte than a slash, gets the prefix as well. The path it leaves always begins with
  \<open>/openai\<close>. With the generic director stripping \<open>/groq\<close> and setting the upstream host,
  a request to \<open>/groq/v1/...\<close> goes to \<open>api.groq.com\<close> with the path \<open>/openai/v1/...\<close>.
\<close>

theorem groq_path_prefix:
  "URL_Path (groq_Director baseDirector req) =
     (if HasPrefix (URL_Path (baseDirector req)) ''/openai/'' then URL_Path (baseDirector req)
      else ''/openai'' @ URL_Path (baseDirector req))
   \<and> HasPrefix (URL_Path (groq_Director baseDirector req)) ''/openai''
   \<and> URL_Path (groq_Director (CreateGenericDirector groq_GetName groqHost)
                 (req\<lparr> URL_Path := ''/groq/v1/'' @ rest \<rparr>)) = ''/openai/v1/'' @ rest
   \<and> URL_Host (groq_Director (CreateGenericDirector groq_GetName groqHost)
                 (req\<lparr> URL_Path := ''/groq/v1/'' @ rest \<rparr>)) = ''api.groq.com''"
proof -
  have a: "URL_Path (groq_Director baseDirector req) =
     (if HasPrefix (URL_Path (baseDirector req)) ''/openai/'' then URL_Path (baseDirector req)
      else ''/openai'' @ URL_Path (baseDirector req))"
    by (simp add: groq_Director_def Let_def)
  have b: "HasPrefix (URL_Path (groq_Director baseDirector req)) ''/openai''"
  proof (cases "HasPrefix (URL_Path (baseDirector req)) ''/openai/''")
    case True
    then have "HasPrefix (URL_Path (baseDirector req)) (''/openai'' @ ''/'')" by simp
    then have "HasPrefix (URL_Path (baseDirector req)) ''/openai''" by (rule HasPrefix_weaken)
    then show ?thesis using True a by simp
  next
    case False
    have "HasPrefix (''/openai'' @ URL_Path (baseDirector req)) ''/openai''"
      unfolding HasPrefix_iff by blast
    then show ?thesis using False a by simp
  qed
  have s: "TrimPrefix (''/groq/v1/'' @ rest) ''/groq'' = ''/v1/'' @ rest"
    using TrimPrefix_append[of "''/groq''" "''/v1/'' @ rest"] by simp
  have n: "\<not> HasPrefix (''/v1/'' @ rest) ''/openai/''" by (simp add: HasPrefix_def)
  have c: "URL_Path (groq_Director (CreateGenericDirector groq_GetName groqHost)
                 (req\<lparr> URL_Path := ''/groq/v1/'' @ rest \<rparr>)) = ''/openai/v1/'' @ rest"
    using s n by (simp add: groq_Director_def CreateGenericDirector_def groq_GetName_def Let_def)
  have d: "URL_Host (groq_Director (CreateGenericDirector groq_GetName groqHost)
                 (req\<lparr> URL_Path := ''/groq/v1/'' @ rest \<rparr>)) = ''api.groq.com''"
    by (simp add: groq_Director_def CreateGenericDirector_def groqHost_def Let_def)
  from a b c d show ?thesis by blast
qed

theorem groq_path_prefix_witness:
  "URL_Path (groq_Director (CreateGenericDirector groq_GetName groqHost)
       (bare_request\<lparr> URL_Path := ''/groq/v1/chat/completions'' \<rparr>)) = ''/openai/v1/chat/completions''
   \<and> URL_Host (groq_Director (CreateGenericDirector groq_GetName groqHost)
       (bare_request\<lparr> URL_Path := ''/groq/v1/chat/completions'' \<rparr>)) = ''api.groq.com''"
  using groq_path_prefix[of "CreateGenericDirector groq_GetName groqHost" bare_request "''chat/completions''"]
  by simp

text \<open>
  C9, as stated, at a bearer key that the key store does not know: the store returns an
  error and no provider, and the validation fails all the same.
\<close>

theorem groq_key_error_counterexample:
  "snd (groq_ValidateAPIKey (bearer_request ''iw:unknown1'') example_keyStore)
     = Some (ErrValidationFailed (Err ''API key not found''))
   \<and> example_keyStore ''iw:unknown1'' = ([], [], Some (Err ''API key not found''))"
  by (simp add: groq_ValidateAPIKey_def bearer_request_def bare_request_def example_keyStore_def
        Values_Get_def HasPrefix_def TrimPrefix_def Let_def)

text \<open>
  C9, amended. A request with no \<open>Authorization\<close> header or with a scheme other than
  \<open>Bearer\<close> passes validation unchanged. For a request carrying a bearer key, validation
  fails exactly when the key store returns an error or resolves the key to a non-empty
  provider other than \<open>groq\<close>, and a failed validation leaves the request as it was; when
  validation succeeds, the \<open>Authorization\<close> header is rewritten to carry the actual key
  if that differs from the presented key, and the request is unchanged otherwise.
\<close>

theorem groq_key_validation:
  "(\<not> HasPrefix (Values_Get (Header req) ''Authorization'') ''Bearer '' \<longrightarrow>
      groq_ValidateAPIKey req keyStore = (req, None))
   \<and> (HasPrefix (Values_Get (Header req) ''Authorization'') ''Bearer '' \<longrightarrow>
      (case keyStore (TrimPrefix (Values_Get (Header req) ''Authorization'') ''Bearer '') of
         (actualKey, prov, err) \<Rightarrow>
           (snd (groq_ValidateAPIKey req keyStore) \<noteq> None \<longleftrightarrow>
              err \<noteq> None \<or> (prov \<noteq> [] \<and> prov \<noteq> ''groq''))
           \<and> (snd (groq_ValidateAPIKey req keyStore) \<noteq> None \<longrightarrow>
                 fst (groq_ValidateAPIKey req keyStore) = req)
           \<and> (snd (groq_ValidateAPIKey req keyStore) = None \<longrightarrow>
                 fst (groq_ValidateAPIKey req keyStore) =
                   (if actualKey \<noteq> TrimPrefix (Values_Get (Header req) ''Authorization'') ''Bearer ''
                    then req\<lparr> Header := (Header req)(''Authorization'' \<mapsto> [''Bearer '' @ actualKey]) \<rparr>
                    else req))))"
proof -
  let ?auth = "Values_Get (Header req) ''Authorization''"
  let ?key = "TrimPrefix ?auth ''Bearer ''"
  have e: "?auth = [] \<Longrightarrow> \<not> HasPrefix ?auth ''Bearer ''" by (simp add: HasPrefix_def)
  have a: "\<not> HasPrefix ?auth ''Bearer '' \<longrightarrow> groq_ValidateAPIKey req keyStore = (req, None)"
    by (simp add: groq_ValidateAPIKey_def Let_def)
  have b: "HasPrefix ?auth ''Bearer '' \<longrightarrow>
      (case keyStore ?key of
         (actualKey, prov, err) \<Rightarrow>
           (snd (groq_ValidateAPIKey req keyStore) \<noteq> None \<longleftrightarrow>
              err \<noteq> None \<or> (prov \<noteq> [] \<and> prov \<noteq> ''groq''))
           \<and> (snd (groq_ValidateAPIKey req keyStore) \<noteq> None \<longrightarrow>
                 fst (groq_ValidateAPIKey req keyStore) = req)
           \<and> (snd (groq_ValidateAPIKey req keyStore) = None \<longrightarrow>
                 fst (groq_ValidateAPIKey req keyStore) =
                   (if actualKey \<noteq> ?key
                    then req\<lparr> Header := (Header req)(''Authorization'' \<mapsto> [''Bearer '' @ actualKey]) \<rparr>
                    else req)))"
  proof
    assume h: "HasPrefix ?auth ''Bearer ''"
    then have ne: "?auth \<noteq> []" using e by blast
    obtain actualKey prov err where k: "keyStore ?key = (actualKey, prov, err)"
      by (cases "keyStore ?key") auto
    have r: "groq_ValidateAPIKey req keyStore =
        (case err of
           Some e \<Rightarrow> (req, Some (ErrValidationFailed e))
         | None \<Rightarrow>
             if prov \<noteq> [] \<and> prov \<noteq> groq_GetName
             then (req, Some (ErrWrongProvider prov groq_GetName))
             else if actualKey \<noteq> ?key
             then (req\<lparr> Header := Values_Set (Header req) ''Authorization'' (''Bearer '' @ actualKey) \<rparr>, None)
             else (req, None))"
      using h ne k by (simp add: groq_ValidateAPIKey_def Let_def)
    show "(case keyStore ?key of
         (actualKey, prov, err) \<Rightarrow>
           (snd (groq_ValidateAPIKey req keyStore) \<noteq> None \<longleftrightarrow>
              err \<noteq> None \<or> (prov \<noteq> [] \<and> prov \<noteq> ''groq''))
           \<and> (snd (groq_ValidateAPIKey req keyStore) \<noteq> None \<longrightarrow>
                 fst (groq_ValidateAPIKey req keyStore) = req)
           \<and> (snd (groq_ValidateAPIKey req keyStore) = None \<longrightarrow>
                 fst (groq_ValidateAPIKey req keyStore) =
                   (if actualKey \<noteq> ?key
                    then req\<lparr> Header := (Header req)(''Authorization'' \<mapsto> [''Bearer '' @ actualKey]) \<rparr>
                    else req)))"
      unfolding k r by (cases err) (simp_all add: groq_GetName_def Values_Set_def)
  qed
  from a b show ?thesis by blast
qed

theorem groq_key_validation_witness:
  "groq_ValidateAPIKey bare_request example_keyStore = (bare_request, None)
   \<and> snd (groq_ValidateAPIKey (bearer_request ''iw:abcd1234'') example_keyStore) = None
   \<and> Values_Get (Header (fst (groq_ValidateAPIKey (bearer_request ''iw:abcd1234'') example_keyStore)))
        ''Authorization'' = ''Bearer gsk_real''
   \<and> snd (groq_ValidateAPIKey (bearer_request ''iw:openai01'') example_keyStore) \<noteq> None
   \<and> fst (groq_ValidateAPIKey (bearer_request ''iw:openai01'') example_keyStore)
        = bearer_request ''iw:openai01''"
proof -
  have n: "\<not> HasPrefix (Values_Get (Header bare_request) ''Authorization'') ''Bearer ''"
    by (simp add: bare_request_def Values_Get_def HasPrefix_def)
  have h: "\<And>t. HasPrefix (Values_Get (Header (bearer_request t)) ''Authorization'') ''Bearer ''"
    by (simp add: bearer_request_def bare_request_def Values_Get_def HasPrefix_def)
  have t: "\<And>t. TrimPrefix (Values_Get (Header (bearer_request t)) ''Authorization'') ''Bearer '' = t"
    by (simp add: bearer_request_def bare_request_def Values_Get_def HasPrefix_def TrimPrefix_def)
  have k1: "example_keyStore ''iw:abcd1234'' = (''gsk_real'', ''groq'', None)"
    by (simp add: example_keyStore_def)
  have k2: "example_keyStore ''iw:openai01'' = (''sk-real'', ''openai'', None)"
    by (simp add: example_keyStore_def)
  from groq_key_validation[of bare_request example_keyStore] n
  have a: "groq_ValidateAPIKey bare_request example_keyStore = (bare_request, None)" by blast
  from groq_key_validation[of "bearer_request ''iw:abcd1234''" example_keyStore]
  have b: "snd (groq_ValidateAPIKey (bearer_request ''iw:abcd1234'') example_keyStore) = None
     \<and> fst (groq_ValidateAPIKey (bearer_request ''iw:abcd1234'') example_keyStore)
        = (bearer_request ''iw:abcd1234'')\<lparr> Header := (Header (bearer_request ''iw:abcd1234''))(''Authorization'' \<mapsto> [''Bearer gsk_real'']) \<rparr>"
    by (simp add: h t k1)
  from groq_key_validation[of "bearer_request ''iw:openai01''" example_keyStore]
  have c: "snd (groq_ValidateAPIKey (bearer_request ''iw:openai01'') example_keyStore) \<noteq> None
     \<and> fst (groq_ValidateAPIKey (bearer_request ''iw:openai01'') example_keyStore)
        = bearer_request ''iw:openai01''"
    by (simp add: h t k2)
  from a b c show ?thesis by (simp add: Values_Get_def)
qed

section \<open>The response capture\<close>

lemma parse_streaming_keeps [simp]:
  "ResponseWriter (parse_streaming rc p) = ResponseWriter rc"
  "body (parse_streaming rc p) = body rc"
  "isStreaming (parse_streaming rc p) = isStreaming rc"
  "provider (parse_streaming rc p) = provider rc"
  by (simp_all add: parse_streaming_def Let_def split: prod.splits option.splits)

lemma Write_keeps [simp]:
  "ResponseWriter (Write rc b) = rw_Write (ResponseWriter rc) b"
  "body (Write rc b) = body rc @ b"
  "isStreaming (Write rc b) = isStreaming rc"
  "provider (Write rc b) = provider rc"
  by (simp_all add: Write_def Let_def split: option.splits)

lemma capture_op_keeps [simp]:
  "ResponseWriter (capture_op rc op) = writer_op (ResponseWriter rc) op"
  "isStreaming (capture_op rc op) = isStreaming rc"
  "provider (capture_op rc op) = provider rc"
  by (cases op; simp)+

lemma capture_op_body: "body (capture_op rc op) = body rc @ concat (written [op])"
  by (cases op) simp_all

lemma written_Cons: "concat (written (op # ops)) = concat (written [op]) @ concat (written ops)"
  by (cases op) simp_all

lemma serve_keeps:
  "ResponseWriter (foldl capture_op rc ops) = foldl writer_op (ResponseWriter rc) ops"
  "isStreaming (foldl capture_op rc ops) = isStreaming rc"
  "provider (foldl capture_op rc ops) = provider rc"
  by (induction ops arbitrary: rc) simp_all

lemma serve_body: "body (foldl capture_op rc ops) = body rc @ concat (written ops)"
proof (induction ops arbitrary: rc)
  case Nil
  show ?case by simp
next
  case (Cons op ops)
  show ?case using Cons[of "capture_op rc op"] capture_op_body[of rc op] written_Cons[of op ops]
    by simp
qed

lemma rw_Write_body: "rw_body (rw_Write w b) = rw_body w @ b"
  by (simp add: rw_Write_def)

lemma writer_op_body: "rw_body (writer_op w op) = rw_body w @ concat (written [op])"
  by (cases op) (simp_all add: rw_Write_def rw_WriteHeader_def rw_Header_Set_def split: option.splits)

lemma writer_serve_body: "rw_body (foldl writer_op w ops) = rw_body w @ concat (written ops)"
proof (induction ops arbitrary: w)
  case Nil
  show ?case by simp
next
  case (Cons op ops)
  show ?case using Cons[of "writer_op w op"] writer_op_body[of w op] written_Cons[of op ops]
    by simp
qed

lemma set_usage_headers_body: "rw_body (set_usage_headers w md) = rw_body w"
  by (simp add: set_usage_headers_def rw_Header_Set_def Let_def)

lemma serve_captured_fields:
  "ResponseWriter (serve_captured pm next w r) = foldl writer_op w (next r)"
  "body (serve_captured pm next w r) = concat (written (next r))"
  "isStreaming (serve_captured pm next w r) = IsStreamingRequest pm r"
  "provider (serve_captured pm next w r) = GetProviderFromRequest pm r"
  by (simp_all add: serve_captured_def Let_def serve_keeps serve_body)

section \<open>The middleware, through the metadata it delivers\<close>

lemma middleware_writer:
  "fst (TokenParsingMiddleware pm callbacks next w r s) =
     (case delivered_metadata pm next w r of
        Some md \<Rightarrow> set_usage_headers (foldl writer_op w (next r)) md
      | None \<Rightarrow> foldl writer_op w (next r))"
  by (simp add: TokenParsingMiddleware_def delivered_metadata_def Let_def serve_captured_fields
        split: option.splits prod.splits)

lemma middleware_world:
  "fst (snd (TokenParsingMiddleware pm callbacks next w r s)) =
     (case delivered_metadata pm next w r of
        Some md \<Rightarrow> run_callbacks callbacks r md s
      | None \<Rightarrow> s)"
  by (simp add: TokenParsingMiddleware_def delivered_metadata_def Let_def serve_captured_fields
        split: option.splits prod.splits)

lemma delivered_metadata_parsed:
  assumes "GetProviderFromRequest pm r = Some p" "isAPIEndpoint (URL_Path r)"
  shows "delivered_metadata pm next w r =
           (case fst (final_metadata (serve_captured pm next w r) p) of
              (Some md, None) \<Rightarrow> Some md
            | _ \<Rightarrow> None)"
  using assms by (simp add: delivered_metadata_def)



lemma scenario_provider_found:
  "GetProviderFromRequest (mock_manager scenario_provider False) chat_request = Some scenario_provider"
  by (simp add: GetProviderFromRequest_spec named_provider_def meta_provider_segment_def first_segment_provider_def
        after_segment_def segment_def known_providers_def HasPrefix_def GetProvider_def
        mock_manager_def scenario_provider_def chat_request_def bare_request_def)

lemma chat_request_endpoint: "isAPIEndpoint (URL_Path chat_request)"
  by (simp add: isAPIEndpoint_def chat_request_def bare_request_def HasPrefix_def)

lemma scenario_parsed:
  "fst (final_metadata (serve_captured (mock_manager scenario_provider False)
          (\<lambda>r. [OpWriteHeader 200, OpWrite scenario_body]) new_writer chat_request) scenario_provider)
     = (Some scenario_metadata, None)"
  by (simp add: final_metadata_def serve_captured_fields mock_manager_def scenario_provider_def)

lemma scenario_delivered:
  "delivered_metadata (mock_manager scenario_provider False)
      (\<lambda>r. [OpWriteHeader 200, OpWrite scenario_body]) new_writer chat_request = Some scenario_metadata"
  using delivered_metadata_parsed[OF scenario_provider_found chat_request_endpoint] scenario_parsed
  by simp

lemma failing_provider_found:
  "GetProviderFromRequest
     (mock_manager (FailingMockProvider ''openai'' True (Err ''simulated parsing error'')) False)
     chat_request
   = Some (FailingMockProvider ''openai'' True (Err ''simulated parsing error''))"
  by (simp add: GetProviderFromRequest_spec named_provider_def meta_provider_segment_def first_segment_provider_def
        after_segment_def segment_def known_providers_def HasPrefix_def GetProvider_def
        mock_manager_def FailingMockProvider_def chat_request_def bare_request_def)

lemma failing_parse:
  "snd (fst (final_metadata (serve_captured
          (mock_manager (FailingMockProvider ''openai'' True (Err ''simulated parsing error'')) False)
          (\<lambda>r. [OpWriteHeader 200, OpWrite failing_body]) new_writer chat_request)
          (FailingMockProvider ''openai'' True (Err ''simulated parsing error''))))
     = Some (Err ''simulated parsing error'')"
  by (simp add: final_metadata_def serve_captured_fields mock_manager_def FailingMockProvider_def)

lemma failing_delivered:
  "delivered_metadata
      (mock_manager (FailingMockProvider ''openai'' True (Err ''simulated parsing error'')) False)
      (\<lambda>r. [OpWriteHeader 200, OpWrite failing_body]) new_writer chat_request = None"
  using delivered_metadata_parsed[OF failing_provider_found chat_request_endpoint] failing_parse
  by (cases "fst (final_metadata (serve_captured
          (mock_manager (FailingMockProvider ''openai'' True (Err ''simulated parsing error'')) False)
          (\<lambda>r. [OpWriteHeader 200, OpWrite failing_body]) new_writer chat_request)
          (FailingMockProvider ''openai'' True (Err ''simulated parsing error'')))")
     (simp split: option.splits)






section \<open>The client-visible body\<close>

text \<open>
  C2. Every \<open>Write\<close> of the capture passes its argument to the downstream writer, so for
  every sequence of calls made by the inner handler the bytes the downstream writer has
  received are the concatenation of the bytes the handler wrote, in order; the capture
  buffer holds the same bytes, and the middleware leaves the downstream body as the
  handler's writes made it.
\<close>

theorem capture_forwards_bytes:
  "ResponseWriter (Write rc b) = rw_Write (ResponseWriter rc) b
   \<and> rw_body (ResponseWriter (Write rc b)) = rw_body (ResponseWriter rc) @ b
   \<and> body (Write rc b) = body rc @ b
   \<and> rw_body (ResponseWriter (foldl capture_op rc ops))
        = rw_body (ResponseWriter rc) @ concat (written ops)
   \<and> body (foldl capture_op rc ops) = body rc @ concat (written ops)
   \<and> rw_body (fst (TokenParsingMiddleware pm callbacks inner w r s))
        = rw_body w @ concat (written (inner r))"
  by (simp add: rw_Write_body serve_keeps serve_body writer_serve_body middleware_writer
        set_usage_headers_body split: option.splits)

theorem capture_forwards_bytes_witness:
  "rw_body (fst (TokenParsingMiddleware (mock_manager mock_ok True) [Some record_callback]
                   sse_handler new_writer chat_request [])) = ''data: adata: b''
   \<and> body (foldl capture_op
              (serve_captured (mock_manager mock_ok True) (\<lambda>r. []) new_writer chat_request)
              (sse_handler chat_request)) = ''data: adata: b''"
  using capture_forwards_bytes[where pm = "mock_manager mock_ok True"
          and callbacks = "[Some record_callback]" and inner = sse_handler and w = new_writer
          and r = chat_request and s = "[]"
          and rc = "serve_captured (mock_manager mock_ok True) (\<lambda>r. []) new_writer chat_request"
          and ops = "sse_handler chat_request"]
  by (simp add: new_writer_def sse_handler_def serve_captured_fields)

section \<open>Streaming: parsing on write and delivery at the end\<close>


















section \<open>Usage records\<close>

lemma run_main_callbacks:
  "run_callbacks (main_callbacks costTracker pm) r md sink =
     (if costTracker \<and> TotalTokens md > 0 then sink @ [usage_record_for pm r md] else sink)"
  by (simp add: run_callbacks_def main_callbacks_def costTrackingCallback_def TrackRequest_def
        usage_record_for_def Let_def)

lemma sink_after:
  "fst (snd (TokenParsingMiddleware pm (main_callbacks costTracker pm) next w r sink)) =
     sink @ (case delivered_metadata pm next w r of
               Some md \<Rightarrow> if costTracker \<and> TotalTokens md > 0 then [usage_record_for pm r md] else []
             | None \<Rightarrow> [])"
  by (simp add: middleware_world run_main_callbacks split: option.splits)

text \<open>
  C4. With the callbacks that \<open>runServer\<close> registers, a request adds at most one record to
  the cost tracking sink, and it adds one only when there is a parsed metadata whose
  \<open>TotalTokens\<close> is above zero: a response whose parse returns an error, and a metadata
  without usage (\<open>TotalTokens\<close> not above zero, as for a stream that ended before usage
  was seen), add none.
\<close>

theorem at_most_one_usage_record:
  "fst (snd (TokenParsingMiddleware pm (main_callbacks costTracker pm) next w r sink)) =
     sink @ (case delivered_metadata pm next w r of
               Some md \<Rightarrow> if costTracker \<and> TotalTokens md > 0 then [usage_record_for pm r md] else []
             | None \<Rightarrow> [])
   \<and> length (fst (snd (TokenParsingMiddleware pm (main_callbacks costTracker pm) next w r sink)))
        \<le> length sink + 1
   \<and> (fst (snd (TokenParsingMiddleware pm (main_callbacks costTracker pm) next w r sink)) \<noteq> sink
        \<longrightarrow> (\<exists>md. delivered_metadata pm next w r = Some md \<and> TotalTokens md > 0))
   \<and> (GetProviderFromRequest pm r = Some p
        \<and> snd (fst (final_metadata (serve_captured pm next w r) p)) \<noteq> None
        \<longrightarrow> fst (snd (TokenParsingMiddleware pm (main_callbacks costTracker pm) next w r sink)) = sink)
   \<and> (delivered_metadata pm next w r = Some md \<and> TotalTokens md \<le> 0
        \<longrightarrow> fst (snd (TokenParsingMiddleware pm (main_callbacks costTracker pm) next w r sink)) = sink)"
proof -
  let ?sink' = "fst (snd (TokenParsingMiddleware pm (main_callbacks costTracker pm) next w r sink))"
  note a = sink_after[of pm costTracker "next" w r sink]
  have b: "length ?sink' \<le> length sink + 1"
    unfolding a by (simp split: option.splits)
  have c: "?sink' \<noteq> sink \<longrightarrow> (\<exists>md. delivered_metadata pm next w r = Some md \<and> TotalTokens md > 0)"
    unfolding a by (simp split: option.splits)
  have d: "GetProviderFromRequest pm r = Some p
        \<and> snd (fst (final_metadata (serve_captured pm next w r) p)) \<noteq> None \<longrightarrow> ?sink' = sink"
  proof
    assume h: "GetProviderFromRequest pm r = Some p
        \<and> snd (fst (final_metadata (serve_captured pm next w r) p)) \<noteq> None"
    have "delivered_metadata pm next w r = None"
      using h by (cases "fst (final_metadata (serve_captured pm next w r) p)")
                 (auto simp: delivered_metadata_def split: option.splits)
    then show "?sink' = sink" unfolding a by simp
  qed
  have e: "delivered_metadata pm next w r = Some md \<and> TotalTokens md \<le> 0 \<longrightarrow> ?sink' = sink"
    unfolding a by auto
  from a b c d e show ?thesis by blast
qed

theorem at_most_one_usage_record_witness:
  "map (\<lambda>u. (TotalTokens (ur_metadata u), ur_userID u, ur_ipAddress u, ur_path u))
     (fst (snd (TokenParsingMiddleware (mock_manager scenario_provider False)
        (main_callbacks True (mock_manager scenario_provider False))
        (\<lambda>r. [OpWriteHeader 200, OpWrite scenario_body]) new_writer chat_request [])))
     = [(12, ''ip:192.0.2.1:1234'', ''192.0.2.1:1234'', ''/openai/v1/chat/completions'')]
   \<and> fst (snd (TokenParsingMiddleware
        (mock_manager (FailingMockProvider ''openai'' True (Err ''simulated parsing error'')) False)
        (main_callbacks True
           (mock_manager (FailingMockProvider ''openai'' True (Err ''simulated parsing error'')) False))
        (\<lambda>r. [OpWriteHeader 200, OpWrite failing_body]) new_writer chat_request [])) = []"
proof -
  have u: "ExtractUserIDFromRequest chat_request (Some scenario_provider) = ''ip:192.0.2.1:1234''"
    by (simp add: ExtractUserIDFromRequest_def chat_request_def bare_request_def Values_Get_def
          path_userID_def HasPrefix_def scenario_provider_def ExtractIPAddressFromRequest_def)
  have i: "ExtractIPAddressFromRequest chat_request = ''192.0.2.1:1234''"
    by (simp add: ExtractIPAddressFromRequest_def chat_request_def bare_request_def Values_Get_def)
  have t: "TotalTokens scenario_metadata = 12" "URL_Path chat_request = ''/openai/v1/chat/completions''"
    by (simp_all add: scenario_metadata_def chat_request_def bare_request_def)
  from at_most_one_usage_record[of "mock_manager scenario_provider False" True
         "\<lambda>r. [OpWriteHeader 200, OpWrite scenario_body]" new_writer chat_request "[]"]
  have a: "fst (snd (TokenParsingMiddleware (mock_manager scenario_provider False)
        (main_callbacks True (mock_manager scenario_provider False))
        (\<lambda>r. [OpWriteHeader 200, OpWrite scenario_body]) new_writer chat_request []))
      = [usage_record_for (mock_manager scenario_provider False) chat_request scenario_metadata]"
    by (simp add: scenario_delivered t)
  from at_most_one_usage_record[of
         "mock_manager (FailingMockProvider ''openai'' True (Err ''simulated parsing error'')) False" True
         "\<lambda>r. [OpWriteHeader 200, OpWrite failing_body]" new_writer chat_request "[]"]
  have b: "fst (snd (TokenParsingMiddleware
        (mock_manager (FailingMockProvider ''openai'' True (Err ''simulated parsing error'')) False)
        (main_callbacks True
           (mock_manager (FailingMockProvider ''openai'' True (Err ''simulated parsing error'')) False))
        (\<lambda>r. [OpWriteHeader 200, OpWrite failing_body]) new_writer chat_request [])) = []"
    by (simp add: failing_delivered)
  show ?thesis unfolding a b
    by (simp add: usage_record_for_def scenario_provider_found u i t)
qed

section \<open>Metering headers\<close>

lemma usage_headers_lookup:
  "Values_Get (rw_header (set_usage_headers w md)) ''X-LLM-Input-Tokens'' = Sprintf_d (InputTokens md)"
  "Values_Get (rw_header (set_usage_headers w md)) ''X-LLM-Output-Tokens'' = Sprintf_d (OutputTokens md)"
  "Values_Get (rw_header (set_usage_headers w md)) ''X-LLM-Total-Tokens'' = Sprintf_d (TotalTokens md)"
  "Values_Get (rw_header (set_usage_headers w md)) ''X-LLM-Thought-Tokens'' = Sprintf_d (ThoughtTokens md)"
  "Values_Get (rw_header (set_usage_headers w md)) ''X-LLM-Provider'' = Provider md"
  "Values_Get (rw_header (set_usage_headers w md)) ''X-LLM-Model'' = Model md"
  "RequestID md \<noteq> [] \<Longrightarrow>
     Values_Get (rw_header (set_usage_headers w md)) ''X-LLM-Request-ID'' = RequestID md"
  "RequestID md = [] \<Longrightarrow>
     rw_header (set_usage_headers w md) ''X-LLM-Request-ID'' = rw_header w ''X-LLM-Request-ID''"
  by (simp_all add: set_usage_headers_def rw_Header_Set_def Values_Set_def Values_Get_def Let_def)

text \<open>
  What the middleware does for a request with a resolved provider on an API endpoint whose
  metadata parses: the header map of the writer holds the metering headers, set from the
  metadata.
\<close>

lemma usage_headers_in_map:
  assumes "GetProviderFromRequest pm r = Some p"
      and "isAPIEndpoint (URL_Path r)"
      and "fst (final_metadata (serve_captured pm next w r) p) = (Some md, None)"
  shows "Values_Get (rw_header (fst (TokenParsingMiddleware pm callbacks next w r s))) ''X-LLM-Input-Tokens''
           = Sprintf_d (InputTokens md)
       \<and> Values_Get (rw_header (fst (TokenParsingMiddleware pm callbacks next w r s))) ''X-LLM-Output-Tokens''
           = Sprintf_d (OutputTokens md)
       \<and> Values_Get (rw_header (fst (TokenParsingMiddleware pm callbacks next w r s))) ''X-LLM-Total-Tokens''
           = Sprintf_d (TotalTokens md)
       \<and> Values_Get (rw_header (fst (TokenParsingMiddleware pm callbacks next w r s))) ''X-LLM-Thought-Tokens''
           = Sprintf_d (ThoughtTokens md)
       \<and> Values_Get (rw_header (fst (TokenParsingMiddleware pm callbacks next w r s))) ''X-LLM-Provider''
           = Provider md
       \<and> Values_Get (rw_header (fst (TokenParsingMiddleware pm callbacks next w r s))) ''X-LLM-Model''
           = Model md
       \<and> (if RequestID md \<noteq> []
          then Values_Get (rw_header (fst (TokenParsingMiddleware pm callbacks next w r s))) ''X-LLM-Request-ID''
                 = RequestID md
          else rw_header (fst (TokenParsingMiddleware pm callbacks next w r s)) ''X-LLM-Request-ID''
                 = rw_header (foldl writer_op w (next r)) ''X-LLM-Request-ID'')"
proof -
  have d: "delivered_metadata pm next w r = Some md"
    using delivered_metadata_parsed[OF assms(1,2)] assms(3) by simp
  have w: "fst (TokenParsingMiddleware pm callbacks next w r s)
             = set_usage_headers (foldl writer_op w (next r)) md"
    by (simp add: middleware_writer d)
  show ?thesis unfolding w by (simp add: usage_headers_lookup)
qed

text \<open>
  The middleware sets them when the inner handler has returned. A handler that has written
  a status or a body has fixed the headers of the response by then, so the response is the
  one the handler alone produces.
\<close>

lemma set_usage_headers_snap: "rw_snapHeader (set_usage_headers w md) = rw_snapHeader w"
  by (simp add: set_usage_headers_def rw_Header_Set_def Let_def)

lemma usage_headers_after_write:
  assumes "rw_snapHeader (foldl writer_op w (inner r)) = Some h"
  shows "response_header (fst (TokenParsingMiddleware pm callbacks inner w r s)) = h
       \<and> response_header (foldl writer_op w (inner r)) = h"
  using assms
  by (simp add: middleware_writer response_header_def set_usage_headers_snap split: option.splits)

text \<open>
  C5, at the OpenAI unary scenario of the specification: the upstream's response is proxied
  with status 200 and its body, and its metadata parses to input 7, output 5, total 12,
  provider openai, model gpt-4o-mini, request id chatcmpl-1. The claim is that the proxy
  response carries the seven metering headers. The code sets them on the header map (the
  first seven conjuncts after the status and the body), but after the status and the body
  have been written: the response carries none of them.
\<close>

theorem usage_headers_not_carried:
  "rw_status scenario_response = Some 200
   \<and> rw_body scenario_response = scenario_body
   \<and> Values_Get (rw_header scenario_response) ''X-LLM-Input-Tokens'' = ''7''
   \<and> Values_Get (rw_header scenario_response) ''X-LLM-Output-Tokens'' = ''5''
   \<and> Values_Get (rw_header scenario_response) ''X-LLM-Total-Tokens'' = ''12''
   \<and> Values_Get (rw_header scenario_response) ''X-LLM-Thought-Tokens'' = ''0''
   \<and> Values_Get (rw_header scenario_response) ''X-LLM-Provider'' = ''openai''
   \<and> Values_Get (rw_header scenario_response) ''X-LLM-Model'' = ''gpt-4o-mini''
   \<and> Values_Get (rw_header scenario_response) ''X-LLM-Request-ID'' = ''chatcmpl-1''
   \<and> response_header scenario_response ''X-LLM-Input-Tokens'' = None
   \<and> response_header scenario_response ''X-LLM-Output-Tokens'' = None
   \<and> response_header scenario_response ''X-LLM-Total-Tokens'' = None
   \<and> response_header scenario_response ''X-LLM-Thought-Tokens'' = None
   \<and> response_header scenario_response ''X-LLM-Provider'' = None
   \<and> response_header scenario_response ''X-LLM-Model'' = None
   \<and> response_header scenario_response ''X-LLM-Request-ID'' = None"
proof -
  let ?h = "\<lambda>r. [OpWriteHeader 200, OpWrite scenario_body]"
  have w: "scenario_response = set_usage_headers (foldl writer_op new_writer (?h chat_request)) scenario_metadata"
    by (simp add: scenario_response_def middleware_writer scenario_delivered)
  have sb: "rw_status scenario_response = Some 200 \<and> rw_body scenario_response = scenario_body"
    unfolding w
    by (simp add: set_usage_headers_def rw_Header_Set_def Let_def new_writer_def
          rw_WriteHeader_def rw_Write_def)
  have m: "Values_Get (rw_header scenario_response) ''X-LLM-Input-Tokens'' = ''7''
   \<and> Values_Get (rw_header scenario_response) ''X-LLM-Output-Tokens'' = ''5''
   \<and> Values_Get (rw_header scenario_response) ''X-LLM-Total-Tokens'' = ''12''
   \<and> Values_Get (rw_header scenario_response) ''X-LLM-Thought-Tokens'' = ''0''
   \<and> Values_Get (rw_header scenario_response) ''X-LLM-Provider'' = ''openai''
   \<and> Values_Get (rw_header scenario_response) ''X-LLM-Model'' = ''gpt-4o-mini''
   \<and> Values_Get (rw_header scenario_response) ''X-LLM-Request-ID'' = ''chatcmpl-1''"
    using usage_headers_in_map[OF scenario_provider_found chat_request_endpoint scenario_parsed, of "[]" "()"]
    by (simp add: scenario_response_def scenario_metadata_def Sprintf_d_def digit_def)
  have snap: "rw_snapHeader (foldl writer_op new_writer (?h chat_request)) = Some Map.empty"
    by (simp add: new_writer_def rw_WriteHeader_def rw_Write_def)
  have r: "response_header scenario_response = Map.empty"
    using usage_headers_after_write[OF snap, where pm = "mock_manager scenario_provider False"
            and callbacks = "[]" and s = "()"]
    by (simp add: scenario_response_def)
  show ?thesis using sb m by (simp add: r)
qed

section \<open>Parse failures\<close>

text \<open>
  C6. When the parse at the end of a tracked response returns an error, the downstream
  writer is exactly as the inner handler alone leaves it (status, body and headers, so no
  metering header is added), and the world of the callbacks is unchanged whatever the
  callbacks are: none is invoked. The witness is the repository's test of a failing
  parser, with a callback that records what it receives.
\<close>

theorem parse_failure_is_opaque:
  assumes "GetProviderFromRequest pm r = Some p"
      and "isAPIEndpoint (URL_Path r)"
      and "snd (fst (final_metadata (serve_captured pm next w r) p)) = Some e"
  shows "fst (TokenParsingMiddleware pm callbacks next w r s) = foldl writer_op w (next r)
       \<and> rw_status (fst (TokenParsingMiddleware pm callbacks next w r s))
           = rw_status (foldl writer_op w (next r))
       \<and> rw_body (fst (TokenParsingMiddleware pm callbacks next w r s))
           = rw_body w @ concat (written (next r))
       \<and> rw_header (fst (TokenParsingMiddleware pm callbacks next w r s))
           = rw_header (foldl writer_op w (next r))
       \<and> fst (snd (TokenParsingMiddleware pm callbacks next w r s)) = s"
proof -
  have d: "delivered_metadata pm next w r = None"
    using delivered_metadata_parsed[OF assms(1,2)] assms(3)
    by (cases "fst (final_metadata (serve_captured pm next w r) p)") (simp split: option.splits)
  show ?thesis by (simp add: middleware_writer middleware_world d writer_serve_body)
qed

theorem parse_failure_is_opaque_witness:
  "rw_status (fst (TokenParsingMiddleware
       (mock_manager (FailingMockProvider ''openai'' True (Err ''simulated parsing error'')) False)
       [Some record_callback] (\<lambda>r. [OpWriteHeader 200, OpWrite failing_body]) new_writer chat_request []))
     = Some 200
   \<and> rw_body (fst (TokenParsingMiddleware
       (mock_manager (FailingMockProvider ''openai'' True (Err ''simulated parsing error'')) False)
       [Some record_callback] (\<lambda>r. [OpWriteHeader 200, OpWrite failing_body]) new_writer chat_request []))
     = failing_body
   \<and> rw_header (fst (TokenParsingMiddleware
       (mock_manager (FailingMockProvider ''openai'' True (Err ''simulated parsing error'')) False)
       [Some record_callback] (\<lambda>r. [OpWriteHeader 200, OpWrite failing_body]) new_writer chat_request []))
       ''X-LLM-Total-Tokens'' = None
   \<and> fst (snd (TokenParsingMiddleware
       (mock_manager (FailingMockProvider ''openai'' True (Err ''simulated parsing error'')) False)
       [Some record_callback] (\<lambda>r. [OpWriteHeader 200, OpWrite failing_body]) new_writer chat_request []))
     = []"
  using parse_failure_is_opaque[OF failing_provider_found chat_request_endpoint failing_parse,
          of "[Some record_callback]" "[]"]
  by (simp add: new_writer_def rw_WriteHeader_def rw_Write_def)

end
